theory Spec2Isabelle
  imports Main "HOL-Library.Word" "HOL-Library.Char_ord" "HOL-Library.List_Lexorder"
begin

section \<open>QueryStore: the Express/Mongoose server and the Hono/D1 worker\<close>

text \<open>
  The repository holds several variants of one REST service. Two of them are embedded
  here, handler by handler:
  \<^item> \<^verbatim>\<open>server.js\<close>, the Express server over Mongoose (constants \<open>server_...\<close>);
    a query is one document with its tags embedded;
  \<^item> the Hono worker over Cloudflare D1 (constants \<open>d1_...\<close>), with the tables of
    \<^verbatim>\<open>schema.sql\<close>; the tags of a query are rows of \<open>query_tags\<close>.

  A handler is a function from the stored data, the authenticated caller (what the auth
  middleware leaves in \<open>req.user.id\<close>, resp. \<open>payload.user.id\<close>), the request and the
  values the environment supplies (clock, fresh ObjectId, random bytes) to the new stored
  data and the HTTP response. Driver and network faults are not modelled; the constraint
  violations of the schema (unique indexes, primary keys) are, because the handlers can
  trigger them by themselves.
\<close>

subsection \<open>JSON values and responses\<close>

datatype json =
    JNull
  | JBool bool
  | JNum nat
  | JDate nat
  | JStr string
  | JArr "json list"
  | JObj "(string \<times> json) list"

text \<open>\<open>JDate\<close> is a date value (milliseconds, resp. the text of \<open>CURRENT_TIMESTAMP\<close>,
  kept as a number); a response is the status code with the body.\<close>

type_synonym response = "nat \<times> json"

definition status :: "response \<Rightarrow> nat" where
  "status r = fst r"

definition body :: "response \<Rightarrow> json" where
  "body r = snd r"

fun keys :: "json \<Rightarrow> string list" where
  "keys (JObj kvs) = map fst kvs"
| "keys _ = []"

fun member :: "json \<Rightarrow> string \<Rightarrow> json option" where
  "member (JObj kvs) k = map_of kvs k"
| "member _ k = None"

fun elements :: "json \<Rightarrow> json list" where
  "elements (JArr js) = js"
| "elements _ = []"

fun is_array :: "json option \<Rightarrow> bool" where
  "is_array (Some (JArr js)) = True"
| "is_array _ = False"

definition message :: "string \<Rightarrow> json" where
  "message m = JObj [(''message'', JStr m)]"

text \<open>\<open>JSON.stringify\<close> leaves out a member whose value is \<open>undefined\<close>.\<close>

fun optional_member :: "string \<Rightarrow> json option \<Rightarrow> (string \<times> json) list" where
  "optional_member k None = []"
| "optional_member k (Some v) = [(k, v)]"

subsection \<open>Strings: \<open>trim\<close>, \<open>toLowerCase\<close>, \<open>split\<close>\<close>

text \<open>
  A string is falsy exactly when it is empty. \<open>trim\<close> and \<open>toLowerCase\<close> below are
  \<open>String.prototype.trim\<close> and \<open>String.prototype.toLowerCase\<close> on ASCII strings: there
  \<open>trim\<close> strips TAB, LF, VT, FF, CR and SPACE from both ends and \<open>toLowerCase\<close> maps
  \<open>A\<close>..\<open>Z\<close> to \<open>a\<close>..\<open>z\<close>. On other characters the JavaScript functions do more
  (they strip U+00A0 and lower-case accented capitals), so a statement about what the handlers
  compute from a string is made for ASCII strings only, with \<open>ascii\<close> as its hypothesis.
\<close>

definition ascii :: "string \<Rightarrow> bool" where
  "ascii s \<longleftrightarrow> list_all (\<lambda>c. (of_char c :: nat) < 128) s"

definition is_space :: "char \<Rightarrow> bool" where
  "is_space c \<longleftrightarrow> of_char c \<in> {9, 10, 11, 12, 13, 32 :: nat}"

definition trim :: "string \<Rightarrow> string" where
  "trim s = rev (dropWhile is_space (rev (dropWhile is_space s)))"

definition lower_char :: "char \<Rightarrow> char" where
  "lower_char c =
     (if 65 \<le> (of_char c :: nat) \<and> (of_char c :: nat) \<le> 90
      then char_of ((of_char c :: nat) + 32) else c)"

definition toLowerCase :: "string \<Rightarrow> string" where
  "toLowerCase s = map lower_char s"

text \<open>\<open>s.split(c)\<close> for a one-character separator: never the empty array.\<close>

fun split :: "char \<Rightarrow> string \<Rightarrow> string list" where
  "split c [] = [[]]"
| "split c (x # xs) =
     (if x = c then [] # split c xs
      else (case split c xs of [] \<Rightarrow> [[x]] | w # ws \<Rightarrow> (x # w) # ws))"

text \<open>The tag pipeline shared by every handler that stores tags:
  \<^verbatim>\<open>tags.map(tag => tag.trim().toLowerCase()).filter(tag => tag)\<close>.\<close>

definition normalize_tags :: "string list \<Rightarrow> string list" where
  "normalize_tags tags = filter (\<lambda>tag. tag \<noteq> []) (map (\<lambda>tag. toLowerCase (trim tag)) tags)"

definition ascii_tags :: "string list option \<Rightarrow> bool" where
  "ascii_tags tags \<longleftrightarrow> (case tags of None \<Rightarrow> True | Some ts \<Rightarrow> list_all ascii ts)"

subsection \<open>Request bodies\<close>

text \<open>
  The body of \<^verbatim>\<open>POST /queries\<close> and \<^verbatim>\<open>PUT /queries/:id\<close>: \<open>title\<close> and \<open>text\<close> are
  strings, \<open>tags\<close> is an array of strings or missing, and \<open>b_rest\<close> holds every other
  member the client sent. The handlers destructure \<^verbatim>\<open>{ title, text, tags }\<close> and never
  read \<open>b_rest\<close>. A body without \<open>title\<close> or \<open>text\<close> is not in this type; the guard
  \<^verbatim>\<open>!title || !text\<close> of \<^verbatim>\<open>server.js\<close> treats it like one with the empty string.
\<close>

record req_body =
  b_title :: string
  b_text :: string
  b_tags :: "string list option"
  b_rest :: "(string \<times> json) list"

subsection \<open>The Express server over Mongoose (\<^verbatim>\<open>server.js\<close>)\<close>

type_synonym oid = string

record user_doc =
  usr_id :: oid
  usr_username :: string
  usr_passwordHash :: string

text \<open>\<open>querySchema\<close>: \<open>isPublic\<close> defaults to false, \<open>shareId\<close> is absent until the query
  is shared, \<open>tags\<close> is always an array.\<close>

record query_doc =
  doc_id :: oid
  doc_title :: string
  doc_text :: string
  doc_tags :: "string list"
  doc_user :: oid
  doc_isPublic :: bool
  doc_shareId :: "string option"
  doc_createdAt :: nat

text \<open>What \<open>res.json\<close> sends for a document (\<open>__v\<close> is Mongoose's version key).\<close>

definition toJSON :: "query_doc \<Rightarrow> json" where
  "toJSON q = JObj
     ([(''_id'', JStr (doc_id q)),
       (''title'', JStr (doc_title q)),
       (''text'', JStr (doc_text q)),
       (''tags'', JArr (map JStr (doc_tags q))),
       (''user'', JStr (doc_user q)),
       (''isPublic'', JBool (doc_isPublic q))]
      @ optional_member ''shareId'' (map_option JStr (doc_shareId q))
      @ [(''createdAt'', JDate (doc_createdAt q)),
         (''__v'', JNum 0)])"

text \<open>The collection in insertion order. \<open>_id\<close> is unique; \<open>shareId\<close> has a unique sparse
  index, so two documents never carry the same share id. A write that would break either
  is refused by the database and the handler's \<open>catch\<close> answers 500.\<close>

definition insert_doc :: "query_doc list \<Rightarrow> query_doc \<Rightarrow> query_doc list option" where
  "insert_doc db q =
     (if doc_id q \<in> set (map doc_id db) then None else Some (db @ [q]))"

fun replace_doc :: "query_doc list \<Rightarrow> query_doc \<Rightarrow> query_doc list" where
  "replace_doc [] q = []"
| "replace_doc (d # ds) q = (if doc_id d = doc_id q then q # ds else d # replace_doc ds q)"

definition shareId_taken :: "query_doc list \<Rightarrow> oid \<Rightarrow> string \<Rightarrow> bool" where
  "shareId_taken db i s \<longleftrightarrow> (\<exists>d \<in> set db. doc_id d \<noteq> i \<and> doc_shareId d = Some s)"

text \<open>\<open>query.save()\<close> on a loaded document whose \<open>shareId\<close> was set.\<close>

definition save_doc :: "query_doc list \<Rightarrow> query_doc \<Rightarrow> query_doc list option" where
  "save_doc db q =
     (case doc_shareId q of
        None \<Rightarrow> Some (replace_doc db q)
      | Some s \<Rightarrow> if shareId_taken db (doc_id q) s then None else Some (replace_doc db q))"

fun findOneAndUpdate ::
  "query_doc list \<Rightarrow> (query_doc \<Rightarrow> bool) \<Rightarrow> (query_doc \<Rightarrow> query_doc)
     \<Rightarrow> (query_doc list \<times> query_doc) option" where
  "findOneAndUpdate [] P f = None"
| "findOneAndUpdate (d # ds) P f =
     (if P d then Some (f d # ds, f d)
      else map_option (\<lambda>(ds', u). (d # ds', u)) (findOneAndUpdate ds P f))"

fun findOneAndDelete ::
  "query_doc list \<Rightarrow> (query_doc \<Rightarrow> bool) \<Rightarrow> (query_doc list \<times> query_doc) option" where
  "findOneAndDelete [] P = None"
| "findOneAndDelete (d # ds) P =
     (if P d then Some (ds, d)
      else map_option (\<lambda>(ds', u). (d # ds', u)) (findOneAndDelete ds P))"

text \<open>\<open>crypto.randomBytes(12).toString('hex')\<close>: two lower-case hex digits per byte.\<close>

definition hex_digit :: "nat \<Rightarrow> char" where
  "hex_digit n = ''0123456789abcdef'' ! (n mod 16)"

definition toString_hex :: "8 word list \<Rightarrow> string" where
  "toString_hex bs = concat (map (\<lambda>b. [hex_digit (unat b div 16), hex_digit (unat b mod 16)]) bs)"

text \<open>
  \<^verbatim>\<open>POST /login\<close>. The name is a string; the password is whatever JSON value the
  body holds under \<open>password\<close>, or nothing. \<open>compare\<close> is \<open>bcrypt.compare\<close> on two
  strings; called with a password that is not a string it throws. \<open>sign\<close> is
  \<open>jwt.sign\<close> with the secret and the one-hour expiry, applied to the user's id and
  name. \<open>userSchema\<close> declares \<open>username\<close> with \<open>trim: true\<close>, and Mongoose applies
  that to the filter of \<open>findOne\<close> too: the lookup is by the trimmed name.
\<close>

definition truthy_value :: "json option \<Rightarrow> bool" where
  "truthy_value v \<longleftrightarrow>
     (case v of
        None \<Rightarrow> False
      | Some JNull \<Rightarrow> False
      | Some (JBool b) \<Rightarrow> b
      | Some (JNum n) \<Rightarrow> n \<noteq> 0
      | Some (JStr s) \<Rightarrow> s \<noteq> []
      | Some _ \<Rightarrow> True)"

definition bcrypt_compare :: "(string \<Rightarrow> string \<Rightarrow> bool) \<Rightarrow> json option \<Rightarrow> string \<Rightarrow> bool option" where
  "bcrypt_compare compare password hash =
     (case password of Some (JStr s) \<Rightarrow> Some (compare s hash) | _ \<Rightarrow> None)"

definition server_login ::
  "(string \<Rightarrow> string \<Rightarrow> bool) \<Rightarrow> (oid \<Rightarrow> string \<Rightarrow> string) \<Rightarrow> user_doc list
     \<Rightarrow> string \<Rightarrow> json option \<Rightarrow> response" where
  "server_login compare sign users username password =
     (if username = [] \<or> \<not> truthy_value password
      then (400, message ''Username and password are required.'')
      else case find (\<lambda>u. usr_username u = trim username) users of
        None \<Rightarrow> (401, message ''Invalid credentials.'')
      | Some user \<Rightarrow>
          (case bcrypt_compare compare password (usr_passwordHash user) of
             None \<Rightarrow> (500, message ''An error occurred during login.'')
           | Some isMatch \<Rightarrow>
               if \<not> isMatch
               then (401, message ''Invalid credentials.'')
               else (200, JObj [(''token'', JStr (sign (usr_id user) (usr_username user))),
                                (''user'', JObj [(''username'', JStr (usr_username user))])])))"

text \<open>\<^verbatim>\<open>GET /api/public/queries/:shareId\<close>.\<close>

definition server_get_public_query :: "query_doc list \<Rightarrow> string \<Rightarrow> response" where
  "server_get_public_query db shareId =
     (case find (\<lambda>q. doc_shareId q = Some shareId \<and> doc_isPublic q) db of
        None \<Rightarrow> (404, message ''Shared query not found.'')
      | Some query \<Rightarrow>
          (200, JObj [(''title'', JStr (doc_title query)),
                      (''text'', JStr (doc_text query)),
                      (''tags'', JArr (map JStr (doc_tags query))),
                      (''createdAt'', JDate (doc_createdAt query))]))"

text \<open>\<^verbatim>\<open>GET /api/queries\<close>: the caller's documents, newest first.\<close>

definition server_get_queries :: "query_doc list \<Rightarrow> oid \<Rightarrow> response" where
  "server_get_queries db uid =
     (200, JArr (map toJSON (rev (sort_key doc_createdAt (filter (\<lambda>q. doc_user q = uid) db)))))"

text \<open>The schema's \<^verbatim>\<open>tags: [{ type: String, trim: true }]\<close> trims every tag again when
  a document is written.\<close>

definition schema_tags :: "string list \<Rightarrow> string list" where
  "schema_tags tags = map trim tags"

text \<open>\<^verbatim>\<open>tags ? tags.map(...).filter(...) : []\<close>; an empty array is truthy.\<close>

definition processedTags :: "string list option \<Rightarrow> string list" where
  "processedTags tags = (case tags of Some ts \<Rightarrow> normalize_tags ts | None \<Rightarrow> [])"

text \<open>\<^verbatim>\<open>POST /api/queries\<close>; \<open>new_id\<close> is the ObjectId the driver generates, \<open>now\<close> is
  \<open>Date.now()\<close>.\<close>

definition server_post_queries ::
  "query_doc list \<Rightarrow> oid \<Rightarrow> req_body \<Rightarrow> oid \<Rightarrow> nat \<Rightarrow> query_doc list \<times> response" where
  "server_post_queries db uid b new_id now =
     (if b_title b = [] \<or> b_text b = []
      then (db, (400, message ''Title and text are required.''))
      else
        let newQuery = \<lparr>doc_id = new_id, doc_title = b_title b, doc_text = b_text b,
                         doc_tags = schema_tags (processedTags (b_tags b)), doc_user = uid,
                         doc_isPublic = False, doc_shareId = None, doc_createdAt = now\<rparr>
        in (case insert_doc db newQuery of
              None \<Rightarrow> (db, (500, message ''Error creating query.''))
            | Some db' \<Rightarrow> (db', (201, toJSON newQuery))))"

text \<open>\<^verbatim>\<open>DELETE /api/queries/:id\<close>, for the id \<open>i\<close> that \<open>req.params.id\<close> is cast to.\<close>

definition server_delete_query :: "query_doc list \<Rightarrow> oid \<Rightarrow> oid \<Rightarrow> query_doc list \<times> response" where
  "server_delete_query db uid i =
     (case findOneAndDelete db (\<lambda>q. doc_id q = i \<and> doc_user q = uid) of
        None \<Rightarrow> (db, (404, message ''Query not found or user not authorized.''))
      | Some (db', query) \<Rightarrow> (db', (200, message ''Query deleted successfully.'')))"

text \<open>\<^verbatim>\<open>PUT /api/queries/:id\<close>, for the id \<open>i\<close> that \<open>req.params.id\<close> is cast to.\<close>

definition server_put_query ::
  "query_doc list \<Rightarrow> oid \<Rightarrow> oid \<Rightarrow> req_body \<Rightarrow> query_doc list \<times> response" where
  "server_put_query db uid i b =
     (if b_title b = [] \<or> b_text b = []
      then (db, (400, message ''Title and text are required.''))
      else
        case findOneAndUpdate db (\<lambda>q. doc_id q = i \<and> doc_user q = uid)
               (\<lambda>q. q\<lparr>doc_title := b_title b, doc_text := b_text b,
                       doc_tags := schema_tags (processedTags (b_tags b))\<rparr>) of
          None \<Rightarrow> (db, (404, message ''Query not found or user not authorized.''))
        | Some (db', updatedQuery) \<Rightarrow> (db', (200, toJSON updatedQuery)))"

text \<open>\<^verbatim>\<open>POST /api/queries/:id/share\<close>, for the id \<open>i\<close> that \<open>req.params.id\<close> is cast to;
  \<open>bytes\<close> is what \<open>crypto.randomBytes(12)\<close> returns.\<close>

text \<open>A field that holds a string or nothing is truthy when it holds a non-empty string.\<close>

definition truthy :: "string option \<Rightarrow> bool" where
  "truthy s \<longleftrightarrow> (case s of None \<Rightarrow> False | Some v \<Rightarrow> v \<noteq> [])"

definition server_share_query ::
  "query_doc list \<Rightarrow> oid \<Rightarrow> oid \<Rightarrow> 8 word list \<Rightarrow> query_doc list \<times> response" where
  "server_share_query db uid i bytes =
     (case find (\<lambda>q. doc_id q = i \<and> doc_user q = uid) db of
        None \<Rightarrow> (db, (404, message ''Query not found or user not authorized.''))
      | Some query \<Rightarrow>
          if doc_isPublic query \<and> truthy (doc_shareId query)
          then (db, (200, JObj (optional_member ''shareId'' (map_option JStr (doc_shareId query)))))
          else
            (let shareId = toString_hex bytes in
             (case save_doc db (query\<lparr>doc_shareId := Some shareId, doc_isPublic := True\<rparr>) of
                None \<Rightarrow> (db, (500, message ''Error sharing query.''))
              | Some db' \<Rightarrow> (db', (200, JObj [(''shareId'', JStr shareId)])))))"

text \<open>
  The three handlers above take the id as an ObjectId. Express hands them the string
  \<open>req.params.id\<close>; Mongoose casts it for the filter and throws a CastError when the
  string is no ObjectId, which the \<open>catch\<close> of the handler answers with 500.
  \<open>castObjectId\<close> stands for that cast (code of Mongoose): it gives the ObjectId, or
  nothing where Mongoose throws. The check of title and text in the update handler comes
  before the \<open>try\<close>.
\<close>

definition server_delete_route ::
  "(string \<Rightarrow> oid option) \<Rightarrow> query_doc list \<Rightarrow> oid \<Rightarrow> string \<Rightarrow> query_doc list \<times> response" where
  "server_delete_route castObjectId db uid param =
     (case castObjectId param of
        None \<Rightarrow> (db, (500, message ''Error deleting query.''))
      | Some i \<Rightarrow> server_delete_query db uid i)"

definition server_put_route ::
  "(string \<Rightarrow> oid option) \<Rightarrow> query_doc list \<Rightarrow> oid \<Rightarrow> string \<Rightarrow> req_body
     \<Rightarrow> query_doc list \<times> response" where
  "server_put_route castObjectId db uid param b =
     (if b_title b = [] \<or> b_text b = []
      then (db, (400, message ''Title and text are required.''))
      else case castObjectId param of
        None \<Rightarrow> (db, (500, message ''Error updating query.''))
      | Some i \<Rightarrow> server_put_query db uid i b)"

definition server_share_route ::
  "(string \<Rightarrow> oid option) \<Rightarrow> query_doc list \<Rightarrow> oid \<Rightarrow> string \<Rightarrow> 8 word list
     \<Rightarrow> query_doc list \<times> response" where
  "server_share_route castObjectId db uid param bytes =
     (case castObjectId param of
        None \<Rightarrow> (db, (500, message ''Error sharing query.''))
      | Some i \<Rightarrow> server_share_query db uid i bytes)"

subsection \<open>The Hono worker over Cloudflare D1\<close>

text \<open>The tables of \<^verbatim>\<open>schema.sql\<close>. \<open>is_public\<close> is an INTEGER with default 0,
  \<open>share_id\<close> is NULL until the query is shared and UNIQUE; \<open>query_tags\<close> has the primary
  key \<open>(query_id, tag)\<close> and follows the deletion of its query (ON DELETE CASCADE).
  \<open>d1_seq\<close> is the AUTOINCREMENT counter of \<open>queries\<close>.\<close>

record user_row =
  urow_id :: nat
  urow_username :: string
  urow_password_hash :: string

record query_row =
  row_id :: nat
  row_user_id :: nat
  row_title :: string
  row_text :: string
  row_is_public :: nat
  row_share_id :: "string option"
  row_created_at :: nat

record d1 =
  queries :: "query_row list"
  query_tags :: "(nat \<times> string) list"
  d1_seq :: nat

text \<open>An uncaught exception in a handler: Hono answers 500.\<close>

definition internal_error :: response where
  "internal_error = (500, JStr ''Internal Server Error'')"

text \<open>\<^verbatim>\<open>SELECT * FROM users WHERE username = ?\<close>, then one test for both failures:
  \<^verbatim>\<open>!user || !(await bcrypt.compare(password, user.password_hash))\<close>. The comparison
  runs only for a stored name; when it throws, nothing catches it.\<close>

definition d1_login ::
  "(string \<Rightarrow> string \<Rightarrow> bool) \<Rightarrow> (nat \<Rightarrow> string \<Rightarrow> string) \<Rightarrow> user_row list
     \<Rightarrow> string \<Rightarrow> json option \<Rightarrow> response" where
  "d1_login compare sign users username password =
     (case find (\<lambda>u. urow_username u = username) users of
        None \<Rightarrow> (401, message ''Invalid credentials.'')
      | Some user \<Rightarrow>
          (case bcrypt_compare compare password (urow_password_hash user) of
             None \<Rightarrow> internal_error
           | Some isMatch \<Rightarrow>
               if \<not> isMatch
               then (401, message ''Invalid credentials.'')
               else (200, JObj [(''token'', JStr (sign (urow_id user) (urow_username user))),
                                (''user'', JObj [(''username'', JStr (urow_username user))])])))"

text \<open>\<^verbatim>\<open>GROUP_CONCAT(t.tag)\<close> over the LEFT JOIN: NULL for a query without tag rows,
  otherwise its tags joined with commas. The join reads the tag rows through the index
  of the primary key \<open>(query_id, tag)\<close>, so they come sorted by tag (bytewise).\<close>

fun join_comma :: "string list \<Rightarrow> string" where
  "join_comma [] = []"
| "join_comma [t] = t"
| "join_comma (t # ts) = t @ CHR '','' # join_comma ts"

definition tags_of :: "d1 \<Rightarrow> nat \<Rightarrow> string list" where
  "tags_of db i = map snd (filter (\<lambda>r. fst r = i) (query_tags db))"

definition group_concat :: "d1 \<Rightarrow> nat \<Rightarrow> string option" where
  "group_concat db i =
     (if tags_of db i = [] then None else Some (join_comma (sort (tags_of db i))))"

text \<open>\<^verbatim>\<open>q.tags ? q.tags.split(',') : []\<close>.\<close>

definition tags_array :: "string option \<Rightarrow> json" where
  "tags_array tags = (if truthy tags then JArr (map JStr (split CHR '','' (the tags))) else JArr [])"

definition json_null :: "string option \<Rightarrow> json" where
  "json_null v = (case v of None \<Rightarrow> JNull | Some s \<Rightarrow> JStr s)"

text \<open>\<^verbatim>\<open>GET /public/queries/:shareId\<close>.\<close>

definition d1_get_public_query :: "d1 \<Rightarrow> string \<Rightarrow> response" where
  "d1_get_public_query db shareId =
     (case find (\<lambda>q. row_share_id q = Some shareId \<and> row_is_public q = 1) (queries db) of
        None \<Rightarrow> (404, message ''Shared query not found.'')
      | Some query \<Rightarrow>
          (200, JObj [(''title'', JStr (row_title query)),
                      (''text'', JStr (row_text query)),
                      (''tags'', tags_array (group_concat db (row_id query))),
                      (''createdAt'', JDate (row_created_at query))]))"

text \<open>\<^verbatim>\<open>GET /queries\<close>: \<^verbatim>\<open>{ ...q, _id: q.id, tags: ... }\<close> for each of the caller's rows,
  newest first; rows of the same time stay in the order of the table.\<close>

definition formatted :: "d1 \<Rightarrow> query_row \<Rightarrow> json" where
  "formatted db q = JObj
     [(''id'', JNum (row_id q)),
      (''user_id'', JNum (row_user_id q)),
      (''title'', JStr (row_title q)),
      (''text'', JStr (row_text q)),
      (''is_public'', JNum (row_is_public q)),
      (''share_id'', json_null (row_share_id q)),
      (''created_at'', JDate (row_created_at q)),
      (''tags'', tags_array (group_concat db (row_id q))),
      (''_id'', JNum (row_id q))]"

definition d1_get_queries :: "d1 \<Rightarrow> nat \<Rightarrow> response" where
  "d1_get_queries db uid =
     (200, JArr (map (formatted db)
        (rev (sort_key row_created_at (rev (filter (\<lambda>q. row_user_id q = uid) (queries db)))))))"

text \<open>The loop \<^verbatim>\<open>for (const tag of tagValues) await db.prepare('INSERT INTO query_tags ...')\<close>:
  one statement per tag, each committed by itself. An INSERT of a pair that is already
  there violates the primary key and throws; the rows written before it stay. The result
  is the table and whether the loop ran to its end.\<close>

fun insert_tags :: "(nat \<times> string) list \<Rightarrow> nat \<Rightarrow> string list \<Rightarrow> (nat \<times> string) list \<times> bool" where
  "insert_tags T i [] = (T, True)"
| "insert_tags T i (tag # tagValues) =
     (if (i, tag) \<in> set T then (T, False) else insert_tags (T @ [(i, tag)]) i tagValues)"

text \<open>\<^verbatim>\<open>if (tags && tags.length > 0) { ... }\<close>.\<close>

definition write_tags :: "(nat \<times> string) list \<Rightarrow> nat \<Rightarrow> string list option \<Rightarrow> (nat \<times> string) list \<times> bool" where
  "write_tags T i tags =
     (case tags of
        None \<Rightarrow> (T, True)
      | Some ts \<Rightarrow> if length ts > 0 then insert_tags T i (normalize_tags ts) else (T, True))"

text \<open>\<^verbatim>\<open>POST /queries\<close>: no check of the body. The INSERT takes the next AUTOINCREMENT
  id; \<open>is_public\<close>, \<open>share_id\<close> and \<open>created_at\<close> get their defaults (\<open>now\<close> is
  \<open>CURRENT_TIMESTAMP\<close>). The response echoes the tags as they were sent.\<close>

definition last_row_id :: "d1 \<Rightarrow> nat" where
  "last_row_id db = Suc (max (d1_seq db) (fold max (map row_id (queries db)) 0))"

definition d1_post_queries :: "d1 \<Rightarrow> nat \<Rightarrow> req_body \<Rightarrow> nat \<Rightarrow> d1 \<times> response" where
  "d1_post_queries db uid b now =
     (let queryId = last_row_id db;
          row = \<lparr>row_id = queryId, row_user_id = uid, row_title = b_title b,
                 row_text = b_text b, row_is_public = 0, row_share_id = None,
                 row_created_at = now\<rparr>;
          T = write_tags (query_tags db) queryId (b_tags b);
          db' = \<lparr>queries = queries db @ [row], query_tags = fst T, d1_seq = queryId\<rparr>
      in if snd T
         then (db', (201, JObj ([(''_id'', JNum queryId), (''title'', JStr (b_title b)),
                                 (''text'', JStr (b_text b))]
                @ optional_member ''tags'' (map_option (\<lambda>ts. JArr (map JStr ts)) (b_tags b)))))
         else (db', internal_error))"

text \<open>\<^verbatim>\<open>DELETE /queries/:id\<close>: one statement; the tag rows go with the query.\<close>

definition d1_delete_query :: "d1 \<Rightarrow> nat \<Rightarrow> nat \<Rightarrow> d1 \<times> response" where
  "d1_delete_query db uid i =
     (if filter (\<lambda>q. row_id q = i \<and> row_user_id q = uid) (queries db) = []
      then (db, (404, message ''Query not found or unauthorized.''))
      else (db\<lparr>queries := filter (\<lambda>q. \<not> (row_id q = i \<and> row_user_id q = uid)) (queries db),
               query_tags := filter (\<lambda>r. fst r \<noteq> i) (query_tags db)\<rparr>,
            (200, message ''Query deleted successfully.'')))"

text \<open>\<^verbatim>\<open>PUT /queries/:id\<close>: the UPDATE of the row, the DELETE of its tags and the INSERT
  loop are separate statements.\<close>

definition d1_put_query :: "d1 \<Rightarrow> nat \<Rightarrow> nat \<Rightarrow> req_body \<Rightarrow> d1 \<times> response" where
  "d1_put_query db uid i b =
     (if filter (\<lambda>q. row_id q = i \<and> row_user_id q = uid) (queries db) = []
      then (db, (404, message ''Query not found or unauthorized.''))
      else
        let updated = map (\<lambda>q. if row_id q = i \<and> row_user_id q = uid
                                then q\<lparr>row_title := b_title b, row_text := b_text b\<rparr> else q)
                          (queries db);
            T = write_tags (filter (\<lambda>r. fst r \<noteq> i) (query_tags db)) i (b_tags b);
            db' = db\<lparr>queries := updated, query_tags := fst T\<rparr>
        in if snd T then (db', (200, message ''Query updated successfully.''))
           else (db', internal_error))"

text \<open>\<^verbatim>\<open>POST /queries/:id/share\<close>; \<open>uuid1\<close> and \<open>uuid2\<close> are the two results of
  \<open>crypto.randomUUID()\<close>. Reading past the end of the array that \<open>split\<close> returns
  gives \<open>undefined\<close>, which \<open>+\<close> turns into that word.\<close>

definition part :: "string list \<Rightarrow> nat \<Rightarrow> string" where
  "part ps n = (if n < length ps then ps ! n else ''undefined'')"

definition share_id_taken :: "d1 \<Rightarrow> nat \<Rightarrow> string \<Rightarrow> bool" where
  "share_id_taken db i s \<longleftrightarrow> (\<exists>q \<in> set (queries db). row_id q \<noteq> i \<and> row_share_id q = Some s)"

definition d1_share_query :: "d1 \<Rightarrow> nat \<Rightarrow> nat \<Rightarrow> string \<Rightarrow> string \<Rightarrow> d1 \<times> response" where
  "d1_share_query db uid i uuid1 uuid2 =
     (case find (\<lambda>q. row_id q = i \<and> row_user_id q = uid) (queries db) of
        None \<Rightarrow> (db, (404, message ''Query not found or unauthorized.''))
      | Some query \<Rightarrow>
          if row_is_public query \<noteq> 0 \<and> truthy (row_share_id query)
          then (db, (200, JObj [(''shareId'', json_null (row_share_id query))]))
          else
            (let shareId = part (split CHR ''-'' uuid1) 0 @ part (split CHR ''-'' uuid2) 1 in
             if share_id_taken db i shareId then (db, internal_error)
             else (db\<lparr>queries := map (\<lambda>q. if row_id q = i
                                            then q\<lparr>row_share_id := Some shareId, row_is_public := 1\<rparr>
                                            else q) (queries db)\<rparr>,
                   (200, JObj [(''shareId'', JStr shareId)]))))"

text \<open>A version-4 UUID as \<open>crypto.randomUUID()\<close> prints it: five groups of 8, 4, 4, 4 and
  12 hex digits, separated by dashes.\<close>

definition is_hex :: "char \<Rightarrow> bool" where
  "is_hex c \<longleftrightarrow> c \<in> set ''0123456789abcdef''"

definition is_uuid :: "string \<Rightarrow> bool" where
  "is_uuid u \<longleftrightarrow>
     map length (split CHR ''-'' u) = [8, 4, 4, 4, 12] \<and> list_all is_hex (concat (split CHR ''-'' u))"

subsection \<open>Reachable stores\<close>

text \<open>The stores the services can be in: empty at first, then changed by the four
  mutating handlers only, called by any caller with any request.\<close>

inductive server_reachable :: "query_doc list \<Rightarrow> bool" where
  server_init: "server_reachable []"
| server_create: "server_reachable db \<Longrightarrow> server_reachable (fst (server_post_queries db uid b new_id now))"
| server_update: "server_reachable db \<Longrightarrow> server_reachable (fst (server_put_query db uid i b))"
| server_delete: "server_reachable db \<Longrightarrow> server_reachable (fst (server_delete_query db uid i))"
| server_share: "server_reachable db \<Longrightarrow> length bytes = 12 \<Longrightarrow>
     server_reachable (fst (server_share_query db uid i bytes))"

definition d1_empty :: d1 where
  "d1_empty = \<lparr>queries = [], query_tags = [], d1_seq = 0\<rparr>"

inductive d1_reachable :: "d1 \<Rightarrow> bool" where
  d1_init: "d1_reachable d1_empty"
| d1_create: "d1_reachable db \<Longrightarrow> d1_reachable (fst (d1_post_queries db uid b now))"
| d1_update: "d1_reachable db \<Longrightarrow> d1_reachable (fst (d1_put_query db uid i b))"
| d1_delete: "d1_reachable db \<Longrightarrow> d1_reachable (fst (d1_delete_query db uid i))"
| d1_share: "d1_reachable db \<Longrightarrow> is_uuid uuid1 \<Longrightarrow> is_uuid uuid2 \<Longrightarrow>
     d1_reachable (fst (d1_share_query db uid i uuid1 uuid2))"

text \<open>The invariant of the data model: a share token is present exactly on the public
  queries.\<close>

definition server_inv :: "query_doc list \<Rightarrow> bool" where
  "server_inv db \<longleftrightarrow> (\<forall>q \<in> set db. (doc_shareId q \<noteq> None) = doc_isPublic q)"

definition d1_inv :: "d1 \<Rightarrow> bool" where
  "d1_inv db \<longleftrightarrow> (\<forall>q \<in> set (queries db). (row_share_id q \<noteq> None) = (row_is_public q = 1))"

text \<open>What the handlers rely on besides: ids are unique (\<open>_id\<close>, resp. the primary key
  \<open>id\<close>), a public query has a share id that is truthy, and a tag row belongs to a
  stored query (the foreign key of \<open>query_tags\<close>).\<close>

definition server_wf :: "query_doc list \<Rightarrow> bool" where
  "server_wf db \<longleftrightarrow>
     distinct (map doc_id db) \<and> (\<forall>q \<in> set db. doc_isPublic q \<longrightarrow> truthy (doc_shareId q))"

definition d1_wf :: "d1 \<Rightarrow> bool" where
  "d1_wf db \<longleftrightarrow>
     distinct (map row_id (queries db)) \<and>
     (\<forall>q \<in> set (queries db). row_is_public q \<noteq> 0 \<longrightarrow> truthy (row_share_id q)) \<and>
     (\<forall>r \<in> set (query_tags db). fst r \<in> row_id ` set (queries db))"

subsection \<open>Sample requests and stores\<close>

text \<open>Concrete inputs on which the theorems below are run: a user stores a query and
  shares it; the bodies carry members the handlers must ignore.\<close>

definition ex_body :: req_body where
  "ex_body = \<lparr>b_title = ''Top customers'', b_text = ''SELECT 1'',
              b_tags = Some ['' SQL '', ''sql'', '''', ''Perf''],
              b_rest = [(''isPublic'', JBool True), (''user'', JStr ''mallory''),
                        (''shareId'', JStr ''guess''), (''createdAt'', JDate 0)]\<rparr>"

definition ex_body2 :: req_body where
  "ex_body2 = \<lparr>b_title = ''Slow queries'', b_text = ''SELECT 2'',
               b_tags = Some [''Perf '', ''db''],
               b_rest = [(''is_public'', JNum 1), (''user_id'', JNum 7)]\<rparr>"

definition ex_bytes :: "8 word list" where
  "ex_bytes = [1, 2, 3, 4, 5, 6, 7, 8, 9, 10, 11, 255]"

definition ex_uuid1 :: string where
  "ex_uuid1 = ''123e4567-e89b-42d3-a456-426614174000''"

definition ex_uuid2 :: string where
  "ex_uuid2 = ''9b2d1c3a-77fe-4c1d-8a10-0123456789ab''"

definition ex_server1 :: "query_doc list" where
  "ex_server1 = fst (server_post_queries [] ''alice'' ex_body ''q1'' 1000)"

definition ex_server2 :: "query_doc list" where
  "ex_server2 = fst (server_share_query ex_server1 ''alice'' ''q1'' ex_bytes)"

definition ex_d1_1 :: d1 where
  "ex_d1_1 = fst (d1_post_queries d1_empty 1 ex_body2 1000)"

definition ex_d1_2 :: d1 where
  "ex_d1_2 = fst (d1_share_query ex_d1_1 1 1 ex_uuid1 ex_uuid2)"

definition ex_body3 :: req_body where
  "ex_body3 = \<lparr>b_title = ''Untagged'', b_text = ''SELECT 3'', b_tags = None, b_rest = []\<rparr>"

definition ex_server3 :: "query_doc list" where
  "ex_server3 = fst (server_post_queries ex_server2 ''alice'' ex_body3 ''q2'' 2000)"

definition ex_d1_3 :: d1 where
  "ex_d1_3 = fst (d1_post_queries ex_d1_2 1 ex_body3 2000)"

definition ex_body_dup :: req_body where
  "ex_body_dup = \<lparr>b_title = ''Renamed'', b_text = ''SELECT 9'', b_tags = Some [''x'', ''X ''],
                  b_rest = []\<rparr>"

definition ex_users :: "user_doc list" where
  "ex_users = [\<lparr>usr_id = ''u1'', usr_username = ''alice'', usr_passwordHash = ''#secret''\<rparr>]"

definition ex_user_rows :: "user_row list" where
  "ex_user_rows = [\<lparr>urow_id = 1, urow_username = ''alice'', urow_password_hash = ''#secret''\<rparr>]"

definition ex_compare :: "string \<Rightarrow> string \<Rightarrow> bool" where
  "ex_compare password hash \<longleftrightarrow> hash = CHR ''#'' # password"

definition ex_sign :: "'a \<Rightarrow> string \<Rightarrow> string" where
  "ex_sign i name = ''jwt.'' @ name"

text \<open>Ids as Mongoose has them: an \<open>:id\<close> of 24 hex digits is cast to the ObjectId that
  prints in lower case; other strings are refused here.\<close>

definition ex_cast :: "string \<Rightarrow> oid option" where
  "ex_cast param =
     (if length param = 24 \<and> list_all is_hex (toLowerCase param) then Some (toLowerCase param)
      else None)"

definition ex_oid1 :: oid where
  "ex_oid1 = ''64b7f0c2a1d3e4f5a6b7c8d1''"

definition ex_oid9 :: oid where
  "ex_oid9 = ''64b7f0c2a1d3e4f5a6b7c8d9''"

definition ex_serverA :: "query_doc list" where
  "ex_serverA = fst (server_post_queries [] ''alice'' ex_body ex_oid1 1000)"

section \<open>Properties\<close>

subsection \<open>Strings\<close>

lemma is_space_lower_char: "is_space (lower_char c) = is_space c"
proof (cases "65 \<le> (of_char c :: nat) \<and> (of_char c :: nat) \<le> 90")
  case True
  then have "(of_char c + 32 :: nat) mod 256 = of_char c + 32" by simp
  with True show ?thesis by (simp add: is_space_def lower_char_def of_char_of)
next
  case False
  then show ?thesis by (auto simp: lower_char_def)
qed

lemma dropWhile_space_lower: "dropWhile is_space (map lower_char s) = map lower_char (dropWhile is_space s)"
  by (induction s) (simp_all add: is_space_lower_char)

lemma trim_toLowerCase: "trim (toLowerCase s) = toLowerCase (trim s)"
  by (simp add: trim_def toLowerCase_def dropWhile_space_lower rev_map)

lemma dropWhile_rev_dropWhile:
  "dropWhile P (rev (dropWhile P (rev (dropWhile P s)))) = rev (dropWhile P (rev (dropWhile P s)))"
proof (cases "dropWhile P s")
  case Nil
  then show ?thesis by (simp del: dropWhile_eq_Nil_conv)
next
  case (Cons x xs)
  then have nP: "\<not> P x" by (metis hd_dropWhile list.sel(1) list.distinct(1))
  have "\<exists>zs. dropWhile P (rev xs @ [x]) = zs @ [x]"
    using nP by (simp add: dropWhile_append)
  then obtain zs where "dropWhile P (rev xs @ [x]) = zs @ [x]" ..
  then show ?thesis using Cons nP by simp
qed

lemma trim_idem: "trim (trim s) = trim s"
  by (simp add: trim_def dropWhile_rev_dropWhile)

lemma trim_normalized: "trim (toLowerCase (trim s)) = toLowerCase (trim s)"
  by (simp add: trim_toLowerCase trim_idem)

lemma lower_char_idem: "lower_char (lower_char c) = lower_char c"
proof (cases "65 \<le> (of_char c :: nat) \<and> (of_char c :: nat) \<le> 90")
  case True
  then have "(of_char c + 32 :: nat) mod 256 = of_char c + 32" by simp
  with True show ?thesis by (simp add: lower_char_def of_char_of)
next
  case False
  then show ?thesis by (auto simp: lower_char_def)
qed

lemma toLowerCase_idem: "toLowerCase (toLowerCase s) = toLowerCase s"
  by (simp add: toLowerCase_def lower_char_idem)

lemma schema_tags_normalize: "schema_tags (normalize_tags ts) = normalize_tags ts"
  unfolding schema_tags_def normalize_tags_def
  by (induction ts) (simp_all add: trim_normalized)

subsection \<open>The document collection\<close>

lemma findOneAndUpdate_None: "findOneAndUpdate db P f = None \<longleftrightarrow> (\<forall>d \<in> set db. \<not> P d)"
  by (induction db) auto

lemma findOneAndDelete_None: "findOneAndDelete db P = None \<longleftrightarrow> (\<forall>d \<in> set db. \<not> P d)"
  by (induction db) auto

lemma findOneAndUpdate_Some:
  "findOneAndUpdate db P f = Some (db', u) \<Longrightarrow>
     \<exists>xs d ys. db = xs @ d # ys \<and> (\<forall>x \<in> set xs. \<not> P x) \<and> P d \<and> u = f d \<and> db' = xs @ f d # ys"
proof (induction db arbitrary: db')
  case Nil
  then show ?case by simp
next
  case (Cons a db)
  show ?case
  proof (cases "P a")
    case True
    with Cons.prems have "db' = f a # db" "u = f a" by auto
    with True show ?thesis by (intro exI[of _ "[]"] exI[of _ a] exI[of _ db]) simp
  next
    case False
    with Cons.prems obtain ds where ds: "findOneAndUpdate db P f = Some (ds, u)" "db' = a # ds"
      by auto
    from Cons.IH[OF ds(1)] obtain xs d ys where
      "db = xs @ d # ys" "\<forall>x \<in> set xs. \<not> P x" "P d" "u = f d" "ds = xs @ f d # ys" by blast
    with False ds(2) show ?thesis
      by (intro exI[of _ "a # xs"] exI[of _ d] exI[of _ ys]) simp
  qed
qed

lemma findOneAndDelete_Some:
  "findOneAndDelete db P = Some (db', u) \<Longrightarrow>
     \<exists>xs ys. db = xs @ u # ys \<and> (\<forall>x \<in> set xs. \<not> P x) \<and> P u \<and> db' = xs @ ys"
proof (induction db arbitrary: db')
  case Nil
  then show ?case by simp
next
  case (Cons a db)
  show ?case
  proof (cases "P a")
    case True
    with Cons.prems have "db' = db" "u = a" by auto
    with True show ?thesis by (intro exI[of _ "[]"] exI[of _ db]) simp
  next
    case False
    with Cons.prems obtain ds where ds: "findOneAndDelete db P = Some (ds, u)" "db' = a # ds"
      by auto
    from Cons.IH[OF ds(1)] obtain xs ys where
      "db = xs @ u # ys" "\<forall>x \<in> set xs. \<not> P x" "P u" "ds = xs @ ys" by blast
    with False ds(2) show ?thesis
      by (intro exI[of _ "a # xs"] exI[of _ ys]) simp
  qed
qed

lemma map_id_replace_doc: "map doc_id (replace_doc db q) = map doc_id db"
  by (induction db) auto

lemma set_replace_doc: "set (replace_doc db q) \<subseteq> insert q (set db)"
  by (induction db) auto

lemma replace_doc_mem: "doc_id q \<in> doc_id ` set db \<Longrightarrow> q \<in> set (replace_doc db q)"
  by (induction db) auto

lemma find_by_id:
  "distinct (map doc_id db) \<Longrightarrow> q \<in> set db \<Longrightarrow>
     find (\<lambda>x. doc_id x = doc_id q \<and> doc_user x = doc_user q) db = Some q"
  by (induction db) (auto simp: image_iff)

lemma find_other_owner:
  "distinct (map doc_id db) \<Longrightarrow> q \<in> set db \<Longrightarrow> doc_user q \<noteq> uid \<Longrightarrow>
     \<forall>d \<in> set db. \<not> (doc_id d = doc_id q \<and> doc_user d = uid)"
  by (auto simp: distinct_map inj_on_def)

lemma length_toString_hex: "length (toString_hex bs) = 2 * length bs"
  by (induction bs) (simp_all add: toString_hex_def)

subsection \<open>The handlers of \<^verbatim>\<open>server.js\<close>, case by case\<close>

lemma schema_tags_processed: "schema_tags (processedTags tags) = processedTags tags"
  by (cases tags) (simp_all add: processedTags_def schema_tags_normalize, simp add: schema_tags_def)

lemma server_post_queries_cases:
  "server_post_queries db uid b new_id now = (db', r) \<Longrightarrow>
     (db' = db \<and> (status r = 400 \<or> status r = 500)) \<or>
     (\<exists>q. db' = db @ [q] \<and> doc_id q \<notin> doc_id ` set db \<and> doc_id q = new_id \<and>
          doc_user q = uid \<and> doc_title q = b_title b \<and> doc_text q = b_text b \<and>
          doc_tags q = processedTags (b_tags b) \<and> \<not> doc_isPublic q \<and>
          doc_shareId q = None \<and> doc_createdAt q = now \<and> r = (201, toJSON q))"
  by (auto simp: server_post_queries_def insert_doc_def status_def Let_def schema_tags_processed
        split: if_splits)

lemma server_put_query_cases:
  assumes a: "server_put_query db uid i b = (db', r)"
  shows "(db' = db \<and> (status r = 400 \<or> status r = 404)) \<or>
     (\<exists>xs d ys. db = xs @ d # ys \<and> doc_id d = i \<and> doc_user d = uid \<and>
          db' = xs @ d\<lparr>doc_title := b_title b, doc_text := b_text b,
                         doc_tags := processedTags (b_tags b)\<rparr> # ys \<and>
          r = (200, toJSON (d\<lparr>doc_title := b_title b, doc_text := b_text b,
                         doc_tags := processedTags (b_tags b)\<rparr>)))"
proof (cases "b_title b = [] \<or> b_text b = []")
  case True
  with a show ?thesis by (auto simp: server_put_query_def status_def)
next
  case False
  let ?f = "\<lambda>q. q\<lparr>doc_title := b_title b, doc_text := b_text b,
                       doc_tags := processedTags (b_tags b)\<rparr>"
  show ?thesis
  proof (cases "findOneAndUpdate db (\<lambda>q. doc_id q = i \<and> doc_user q = uid) ?f")
    case None
    with a False show ?thesis by (auto simp: server_put_query_def status_def schema_tags_processed)
  next
    case (Some p)
    obtain ds u where p: "p = (ds, u)" by (cases p)
    from findOneAndUpdate_Some[OF Some[unfolded p]] obtain xs d ys where
      s: "db = xs @ d # ys" "doc_id d = i \<and> doc_user d = uid" "u = ?f d" "ds = xs @ ?f d # ys"
      by blast
    from a False Some p have "db' = ds" "r = (200, toJSON u)"
      by (auto simp: server_put_query_def schema_tags_processed)
    with s have "db = xs @ d # ys \<and> doc_id d = i \<and> doc_user d = uid \<and>
          db' = xs @ ?f d # ys \<and> r = (200, toJSON (?f d))" by simp
    then show ?thesis by blast
  qed
qed

lemma server_delete_query_cases:
  assumes a: "server_delete_query db uid i = (db', r)"
  shows "(db' = db \<and> status r = 404) \<or>
     (\<exists>xs d ys. db = xs @ d # ys \<and> doc_id d = i \<and> doc_user d = uid \<and> db' = xs @ ys \<and>
          status r = 200)"
proof (cases "findOneAndDelete db (\<lambda>q. doc_id q = i \<and> doc_user q = uid)")
  case None
  with a show ?thesis by (auto simp: server_delete_query_def status_def)
next
  case (Some p)
  obtain ds u where p: "p = (ds, u)" by (cases p)
  from findOneAndDelete_Some[OF Some[unfolded p]] obtain xs ys where
    s: "db = xs @ u # ys" "doc_id u = i \<and> doc_user u = uid" "ds = xs @ ys"
    by blast
  from a Some p have "db' = ds" "status r = 200"
    by (auto simp: server_delete_query_def status_def)
  with s have "db = xs @ u # ys \<and> doc_id u = i \<and> doc_user u = uid \<and> db' = xs @ ys \<and>
          status r = 200" by simp
  then show ?thesis by blast
qed

lemma server_share_query_cases:
  "server_share_query db uid i bytes = (db', r) \<Longrightarrow>
     (db' = db) \<or>
     (\<exists>d \<in> set db. doc_id d = i \<and> doc_user d = uid \<and>
        db' = replace_doc db (d\<lparr>doc_shareId := Some (toString_hex bytes), doc_isPublic := True\<rparr>) \<and>
        r = (200, JObj [(''shareId'', JStr (toString_hex bytes))]))"
  by (auto simp: server_share_query_def save_doc_def Let_def
        split: option.splits if_splits dest!: find_Some_iff[THEN iffD1])

subsection \<open>Invariants of the document collection\<close>

lemma server_post_frame:
  "q \<in> set (fst (server_post_queries db uid b new_id now)) \<Longrightarrow>
     q \<in> set db \<or> (\<not> doc_isPublic q \<and> doc_shareId q = None \<and> doc_id q \<notin> doc_id ` set db)"
  using server_post_queries_cases[of db uid b new_id now]
  by (cases "server_post_queries db uid b new_id now") auto

lemma server_put_frame:
  "q' \<in> set (fst (server_put_query db uid i b)) \<Longrightarrow>
     \<exists>q \<in> set db. doc_isPublic q' = doc_isPublic q \<and> doc_shareId q' = doc_shareId q"
  using server_put_query_cases[of db uid i b]
  by (cases "server_put_query db uid i b") auto

lemma server_put_ids: "map doc_id (fst (server_put_query db uid i b)) = map doc_id db"
  using server_put_query_cases[of db uid i b]
  by (cases "server_put_query db uid i b") auto

lemma server_delete_frame:
  "q \<in> set (fst (server_delete_query db uid i)) \<Longrightarrow> q \<in> set db"
  using server_delete_query_cases[of db uid i]
  by (cases "server_delete_query db uid i") auto

lemma server_delete_ids:
  "distinct (map doc_id db) \<Longrightarrow> distinct (map doc_id (fst (server_delete_query db uid i)))"
  using server_delete_query_cases[of db uid i]
  by (cases "server_delete_query db uid i") auto

lemma server_share_frame:
  "q \<in> set (fst (server_share_query db uid i bytes)) \<Longrightarrow>
     q \<in> set db \<or> (doc_isPublic q \<and> doc_shareId q = Some (toString_hex bytes))"
proof -
  assume q: "q \<in> set (fst (server_share_query db uid i bytes))"
  obtain db' r where e: "server_share_query db uid i bytes = (db', r)"
    by (cases "server_share_query db uid i bytes")
  from server_share_query_cases[OF e] show ?thesis
  proof
    assume "db' = db" with q e show ?thesis by simp
  next
    assume "\<exists>d \<in> set db. doc_id d = i \<and> doc_user d = uid \<and>
        db' = replace_doc db (d\<lparr>doc_shareId := Some (toString_hex bytes), doc_isPublic := True\<rparr>) \<and>
        r = (200, JObj [(''shareId'', JStr (toString_hex bytes))])"
    then obtain d where
      d: "db' = replace_doc db (d\<lparr>doc_shareId := Some (toString_hex bytes), doc_isPublic := True\<rparr>)"
      by blast
    have "set db' \<subseteq> insert (d\<lparr>doc_shareId := Some (toString_hex bytes), doc_isPublic := True\<rparr>) (set db)"
      unfolding d by (rule set_replace_doc)
    with q e show ?thesis by auto
  qed
qed

lemma server_share_ids: "map doc_id (fst (server_share_query db uid i bytes)) = map doc_id db"
proof -
  obtain db' r where e: "server_share_query db uid i bytes = (db', r)"
    by (cases "server_share_query db uid i bytes")
  from server_share_query_cases[OF e] have "map doc_id db' = map doc_id db"
    by (auto simp: map_id_replace_doc)
  with e show ?thesis by simp
qed

lemma server_inv_post:
  assumes "server_inv db"
  shows "server_inv (fst (server_post_queries db uid b new_id now))"
  unfolding server_inv_def
proof
  fix q assume "q \<in> set (fst (server_post_queries db uid b new_id now))"
  from server_post_frame[OF this] assms
  show "(doc_shareId q \<noteq> None) = doc_isPublic q" by (auto simp: server_inv_def)
qed

lemma server_inv_put:
  assumes "server_inv db"
  shows "server_inv (fst (server_put_query db uid i b))"
  unfolding server_inv_def
proof
  fix q assume "q \<in> set (fst (server_put_query db uid i b))"
  from server_put_frame[OF this] assms
  show "(doc_shareId q \<noteq> None) = doc_isPublic q" by (auto simp: server_inv_def)
qed

lemma server_inv_delete:
  assumes "server_inv db"
  shows "server_inv (fst (server_delete_query db uid i))"
  unfolding server_inv_def
proof
  fix q assume "q \<in> set (fst (server_delete_query db uid i))"
  from server_delete_frame[OF this] assms
  show "(doc_shareId q \<noteq> None) = doc_isPublic q" by (auto simp: server_inv_def)
qed

lemma server_inv_share:
  assumes "server_inv db"
  shows "server_inv (fst (server_share_query db uid i bytes))"
  unfolding server_inv_def
proof
  fix q assume "q \<in> set (fst (server_share_query db uid i bytes))"
  from server_share_frame[OF this] assms
  show "(doc_shareId q \<noteq> None) = doc_isPublic q" by (auto simp: server_inv_def)
qed

lemma server_inv_reachable: "server_reachable db \<Longrightarrow> server_inv db"
proof (induction rule: server_reachable.induct)
  case server_init
  show ?case by (simp add: server_inv_def)
qed (simp_all add: server_inv_post server_inv_put server_inv_delete server_inv_share)

lemma server_wf_post:
  assumes wf: "server_wf db"
  shows "server_wf (fst (server_post_queries db uid b new_id now))"
proof -
  have "distinct (map doc_id (fst (server_post_queries db uid b new_id now)))"
    using server_post_queries_cases[of db uid b new_id now] wf
    by (cases "server_post_queries db uid b new_id now") (auto simp: server_wf_def)
  moreover have "\<forall>q \<in> set (fst (server_post_queries db uid b new_id now)).
      doc_isPublic q \<longrightarrow> truthy (doc_shareId q)"
  proof
    fix q assume "q \<in> set (fst (server_post_queries db uid b new_id now))"
    from server_post_frame[OF this] wf
    show "doc_isPublic q \<longrightarrow> truthy (doc_shareId q)" by (auto simp: server_wf_def)
  qed
  ultimately show ?thesis by (simp add: server_wf_def)
qed

lemma server_wf_put:
  assumes wf: "server_wf db"
  shows "server_wf (fst (server_put_query db uid i b))"
proof -
  have "\<forall>q \<in> set (fst (server_put_query db uid i b)). doc_isPublic q \<longrightarrow> truthy (doc_shareId q)"
  proof
    fix q assume "q \<in> set (fst (server_put_query db uid i b))"
    from server_put_frame[OF this] wf
    show "doc_isPublic q \<longrightarrow> truthy (doc_shareId q)" by (auto simp: server_wf_def)
  qed
  with wf show ?thesis by (simp add: server_wf_def server_put_ids)
qed

lemma server_wf_delete:
  assumes wf: "server_wf db"
  shows "server_wf (fst (server_delete_query db uid i))"
proof -
  have "\<forall>q \<in> set (fst (server_delete_query db uid i)). doc_isPublic q \<longrightarrow> truthy (doc_shareId q)"
  proof
    fix q assume "q \<in> set (fst (server_delete_query db uid i))"
    from server_delete_frame[OF this] wf
    show "doc_isPublic q \<longrightarrow> truthy (doc_shareId q)" by (auto simp: server_wf_def)
  qed
  with wf show ?thesis by (simp add: server_wf_def server_delete_ids)
qed

lemma server_wf_share:
  assumes wf: "server_wf db" and len: "length bytes = 12"
  shows "server_wf (fst (server_share_query db uid i bytes))"
proof -
  have "length (toString_hex bytes) = 24" using len by (simp add: length_toString_hex)
  then have t: "truthy (Some (toString_hex bytes))" by (auto simp: truthy_def)
  have "\<forall>q \<in> set (fst (server_share_query db uid i bytes)).
      doc_isPublic q \<longrightarrow> truthy (doc_shareId q)"
  proof
    fix q assume "q \<in> set (fst (server_share_query db uid i bytes))"
    from server_share_frame[OF this] wf t
    show "doc_isPublic q \<longrightarrow> truthy (doc_shareId q)" by (auto simp: server_wf_def)
  qed
  with wf show ?thesis by (simp add: server_wf_def server_share_ids)
qed

lemma server_wf_reachable: "server_reachable db \<Longrightarrow> server_wf db"
proof (induction rule: server_reachable.induct)
  case server_init
  show ?case by (simp add: server_wf_def)
qed (simp_all add: server_wf_post server_wf_put server_wf_delete server_wf_share)

subsection \<open>Invariants of the D1 tables\<close>

lemma fold_max_ge: "(a::nat) \<le> fold max xs a \<and> (\<forall>x \<in> set xs. x \<le> fold max xs a)"
proof (induction xs arbitrary: a)
  case Nil
  show ?case by simp
next
  case (Cons y ys)
  from Cons.IH[of "max y a"] show ?case by auto
qed

lemma last_row_id_fresh: "q \<in> set (queries db) \<Longrightarrow> row_id q < last_row_id db"
proof -
  assume "q \<in> set (queries db)"
  then have "row_id q \<in> set (map row_id (queries db))" by simp
  with fold_max_ge[of 0 "map row_id (queries db)"]
  have "row_id q \<le> fold max (map row_id (queries db)) 0" by blast
  then show ?thesis by (simp add: last_row_id_def)
qed

lemma insert_tags_fst:
  "r \<in> set (fst (insert_tags T i ts)) \<Longrightarrow> r \<in> set T \<or> fst r = i"
proof (induction ts arbitrary: T)
  case Nil
  then show ?case by simp
next
  case (Cons a ts)
  show ?case
  proof (cases "(i, a) \<in> set T")
    case True
    with Cons.prems show ?thesis by simp
  next
    case False
    with Cons.prems have "r \<in> set (fst (insert_tags (T @ [(i, a)]) i ts))" by simp
    from Cons.IH[OF this] show ?thesis by auto
  qed
qed

lemma insert_tags_other:
  "k \<noteq> i \<Longrightarrow> filter (\<lambda>r. fst r = k) (fst (insert_tags T i ts)) = filter (\<lambda>r. fst r = k) T"
  by (induction ts arbitrary: T) auto

lemma insert_tags_distinct:
  "distinct ts \<Longrightarrow> \<forall>t \<in> set ts. (i, t) \<notin> set T \<Longrightarrow>
     insert_tags T i ts = (T @ map (Pair i) ts, True)"
proof (induction ts arbitrary: T)
  case Nil
  then show ?case by simp
next
  case (Cons a ts)
  from Cons.prems have "distinct ts" "\<forall>t \<in> set ts. (i, t) \<notin> set (T @ [(i, a)])" by auto
  from Cons.IH[OF this] Cons.prems show ?case by simp
qed

lemma write_tags_fst:
  "r \<in> set (fst (write_tags T i tags)) \<Longrightarrow> r \<in> set T \<or> fst r = i"
  using insert_tags_fst[of r T i]
  by (auto simp: write_tags_def split: option.splits if_splits)

lemma write_tags_other:
  "k \<noteq> i \<Longrightarrow> filter (\<lambda>r. fst r = k) (fst (write_tags T i tags)) = filter (\<lambda>r. fst r = k) T"
  by (auto simp: write_tags_def insert_tags_other split: option.splits)

lemma write_tags_distinct:
  "distinct (processedTags tags) \<Longrightarrow> \<forall>r \<in> set T. fst r \<noteq> i \<Longrightarrow>
     write_tags T i tags = (T @ map (Pair i) (processedTags tags), True)"
proof (cases tags)
  case None
  then show ?thesis by (simp add: write_tags_def processedTags_def)
next
  case (Some ts)
  assume d: "distinct (processedTags tags)" and f: "\<forall>r \<in> set T. fst r \<noteq> i"
  from f have "\<forall>t \<in> set (normalize_tags ts). (i, t) \<notin> set T" by auto
  with d Some have "insert_tags T i (normalize_tags ts) = (T @ map (Pair i) (normalize_tags ts), True)"
    by (simp add: insert_tags_distinct processedTags_def)
  moreover have "ts = [] \<Longrightarrow> normalize_tags ts = []" by (simp add: normalize_tags_def)
  ultimately show ?thesis using Some by (auto simp: write_tags_def processedTags_def)
qed

lemma d1_inv_post: "d1_inv db \<Longrightarrow> d1_inv (fst (d1_post_queries db uid b now))"
  by (auto simp: d1_inv_def d1_post_queries_def Let_def)

lemma d1_inv_put: "d1_inv db \<Longrightarrow> d1_inv (fst (d1_put_query db uid i b))"
  by (auto simp: d1_inv_def d1_put_query_def Let_def)

lemma d1_inv_delete: "d1_inv db \<Longrightarrow> d1_inv (fst (d1_delete_query db uid i))"
  by (auto simp: d1_inv_def d1_delete_query_def)

lemma d1_inv_share: "d1_inv db \<Longrightarrow> d1_inv (fst (d1_share_query db uid i uuid1 uuid2))"
  by (auto simp: d1_inv_def d1_share_query_def Let_def split: option.splits)

lemma d1_inv_reachable: "d1_reachable db \<Longrightarrow> d1_inv db"
proof (induction rule: d1_reachable.induct)
  case d1_init
  show ?case by (simp add: d1_inv_def d1_empty_def)
qed (simp_all add: d1_inv_post d1_inv_put d1_inv_delete d1_inv_share)

lemma is_uuid_parts:
  assumes "is_uuid u"
  shows "length (part (split CHR ''-'' u) 0) = 8" and "length (part (split CHR ''-'' u) 1) = 4"
proof -
  from assms have m: "map length (split CHR ''-'' u) = [8, 4, 4, 4, 12]" by (simp add: is_uuid_def)
  have "length (map length (split CHR ''-'' u)) = 5" by (simp only: m) simp
  then have l: "length (split CHR ''-'' u) = 5" by simp
  have "length (split CHR ''-'' u ! 0) = map length (split CHR ''-'' u) ! 0" using l by simp
  with m l show "length (part (split CHR ''-'' u) 0) = 8" by (simp add: part_def)
  have "length (split CHR ''-'' u ! 1) = map length (split CHR ''-'' u) ! 1" using l by simp
  with m l show "length (part (split CHR ''-'' u) 1) = 4" by (simp add: part_def)
qed

lemma d1_post_rows:
  "queries (fst (d1_post_queries db uid b now)) =
     queries db @ [\<lparr>row_id = last_row_id db, row_user_id = uid, row_title = b_title b,
                     row_text = b_text b, row_is_public = 0, row_share_id = None,
                     row_created_at = now\<rparr>]"
  by (simp add: d1_post_queries_def Let_def)

lemma d1_post_tags:
  "query_tags (fst (d1_post_queries db uid b now)) =
     fst (write_tags (query_tags db) (last_row_id db) (b_tags b))"
  by (simp add: d1_post_queries_def Let_def)

lemma d1_wf_post:
  assumes wf: "d1_wf db"
  shows "d1_wf (fst (d1_post_queries db uid b now))"
proof -
  have fresh: "last_row_id db \<notin> row_id ` set (queries db)"
  proof
    assume "last_row_id db \<in> row_id ` set (queries db)"
    then obtain q where "q \<in> set (queries db)" "row_id q = last_row_id db" by auto
    with last_row_id_fresh[of q db] show False by simp
  qed
  have "\<forall>r \<in> set (fst (write_tags (query_tags db) (last_row_id db) (b_tags b))).
          fst r \<in> insert (last_row_id db) (row_id ` set (queries db))"
  proof
    fix r assume "r \<in> set (fst (write_tags (query_tags db) (last_row_id db) (b_tags b)))"
    from write_tags_fst[OF this] wf
    show "fst r \<in> insert (last_row_id db) (row_id ` set (queries db))"
      by (auto simp: d1_wf_def)
  qed
  with wf fresh show ?thesis
    by (simp add: d1_wf_def d1_post_rows d1_post_tags)
qed

lemma d1_put_rows:
  "queries (fst (d1_put_query db uid i b)) =
     (if filter (\<lambda>q. row_id q = i \<and> row_user_id q = uid) (queries db) = [] then queries db
      else map (\<lambda>q. if row_id q = i \<and> row_user_id q = uid
                     then q\<lparr>row_title := b_title b, row_text := b_text b\<rparr> else q) (queries db))"
  by (simp add: d1_put_query_def Let_def)

lemma d1_put_tags:
  "query_tags (fst (d1_put_query db uid i b)) =
     (if filter (\<lambda>q. row_id q = i \<and> row_user_id q = uid) (queries db) = [] then query_tags db
      else fst (write_tags (filter (\<lambda>r. fst r \<noteq> i) (query_tags db)) i (b_tags b)))"
  by (simp add: d1_put_query_def Let_def)

lemma d1_put_ids: "map row_id (queries (fst (d1_put_query db uid i b))) = map row_id (queries db)"
  by (simp add: d1_put_rows)

lemma d1_wf_put:
  assumes wf: "d1_wf db"
  shows "d1_wf (fst (d1_put_query db uid i b))"
proof (cases "filter (\<lambda>q. row_id q = i \<and> row_user_id q = uid) (queries db) = []")
  case True
  with wf show ?thesis by (simp add: d1_put_query_def)
next
  case False
  then have i: "i \<in> row_id ` set (queries db)" by (auto simp: filter_empty_conv)
  have ids: "row_id ` set (queries (fst (d1_put_query db uid i b))) = row_id ` set (queries db)"
    using d1_put_ids[of db uid i b] by (metis set_map)
  have t: "\<forall>r \<in> set (query_tags (fst (d1_put_query db uid i b))). fst r \<in> row_id ` set (queries db)"
  proof
    fix r assume "r \<in> set (query_tags (fst (d1_put_query db uid i b)))"
    with False have "r \<in> set (fst (write_tags (filter (\<lambda>r. fst r \<noteq> i) (query_tags db)) i (b_tags b)))"
      by (simp add: d1_put_tags)
    from write_tags_fst[OF this] wf i show "fst r \<in> row_id ` set (queries db)"
      by (auto simp: d1_wf_def)
  qed
  have p: "\<forall>q \<in> set (queries (fst (d1_put_query db uid i b))).
             row_is_public q \<noteq> 0 \<longrightarrow> truthy (row_share_id q)"
    using wf by (auto simp: d1_wf_def d1_put_rows)
  from wf have "distinct (map row_id (queries (fst (d1_put_query db uid i b))))"
    by (simp only: d1_put_ids) (simp add: d1_wf_def)
  with t p ids show ?thesis by (simp add: d1_wf_def)
qed

lemma d1_wf_delete:
  assumes wf: "d1_wf db"
  shows "d1_wf (fst (d1_delete_query db uid i))"
proof (cases "filter (\<lambda>q. row_id q = i \<and> row_user_id q = uid) (queries db) = []")
  case True
  with wf show ?thesis by (simp add: d1_delete_query_def)
next
  case False
  from wf have "distinct (map row_id (filter (\<lambda>q. \<not> (row_id q = i \<and> row_user_id q = uid)) (queries db)))"
    by (simp add: d1_wf_def distinct_map_filter)
  moreover have "\<forall>r \<in> set (filter (\<lambda>r. fst r \<noteq> i) (query_tags db)).
      fst r \<in> row_id ` set (filter (\<lambda>q. \<not> (row_id q = i \<and> row_user_id q = uid)) (queries db))"
  proof
    fix r assume r: "r \<in> set (filter (\<lambda>r. fst r \<noteq> i) (query_tags db))"
    with wf obtain q where "q \<in> set (queries db)" "fst r = row_id q" by (auto simp: d1_wf_def)
    with r show "fst r \<in> row_id ` set (filter (\<lambda>q. \<not> (row_id q = i \<and> row_user_id q = uid)) (queries db))"
      by auto
  qed
  moreover have "\<forall>q \<in> set (filter (\<lambda>q. \<not> (row_id q = i \<and> row_user_id q = uid)) (queries db)).
      row_is_public q \<noteq> 0 \<longrightarrow> truthy (row_share_id q)"
    using wf by (auto simp: d1_wf_def)
  ultimately show ?thesis using False by (simp add: d1_wf_def d1_delete_query_def)
qed

lemma d1_share_rows:
  "queries (fst (d1_share_query db uid i uuid1 uuid2)) = queries db \<or>
   queries (fst (d1_share_query db uid i uuid1 uuid2)) =
     map (\<lambda>q. if row_id q = i
               then q\<lparr>row_share_id := Some (part (split CHR ''-'' uuid1) 0 @ part (split CHR ''-'' uuid2) 1),
                      row_is_public := 1\<rparr>
               else q) (queries db)"
  by (simp add: d1_share_query_def Let_def split: option.splits)

lemma d1_share_tags: "query_tags (fst (d1_share_query db uid i uuid1 uuid2)) = query_tags db"
  by (simp add: d1_share_query_def Let_def split: option.splits)

lemma d1_share_ids:
  "map row_id (queries (fst (d1_share_query db uid i uuid1 uuid2))) = map row_id (queries db)"
  using d1_share_rows[of db uid i uuid1 uuid2] by (auto simp: comp_def cong: map_cong)

lemma d1_wf_share:
  assumes wf: "d1_wf db" and u1: "is_uuid uuid1" and u2: "is_uuid uuid2"
  shows "d1_wf (fst (d1_share_query db uid i uuid1 uuid2))"
proof -
  let ?t = "part (split CHR ''-'' uuid1) 0 @ part (split CHR ''-'' uuid2) 1"
  have "length ?t = 12" using is_uuid_parts(1)[OF u1] is_uuid_parts(2)[OF u2] by simp
  then have t: "truthy (Some ?t)" by (auto simp: truthy_def)
  have p: "\<forall>q \<in> set (queries (fst (d1_share_query db uid i uuid1 uuid2))).
             row_is_public q \<noteq> 0 \<longrightarrow> truthy (row_share_id q)"
    using d1_share_rows[of db uid i uuid1 uuid2] wf t by (auto simp: d1_wf_def)
  have ids: "row_id ` set (queries (fst (d1_share_query db uid i uuid1 uuid2))) = row_id ` set (queries db)"
    using d1_share_ids[of db uid i uuid1 uuid2] by (metis set_map)
  from wf have "distinct (map row_id (queries (fst (d1_share_query db uid i uuid1 uuid2))))"
    by (simp only: d1_share_ids) (simp add: d1_wf_def)
  with wf p ids show ?thesis by (simp add: d1_wf_def d1_share_tags)
qed

lemma d1_wf_reachable: "d1_reachable db \<Longrightarrow> d1_wf db"
proof (induction rule: d1_reachable.induct)
  case d1_init
  show ?case by (simp add: d1_wf_def d1_empty_def)
qed (simp_all add: d1_wf_post d1_wf_put d1_wf_delete d1_wf_share)

subsection \<open>The sample stores\<close>

lemma ex_server1_value:
  "ex_server1 = [\<lparr>doc_id = ''q1'', doc_title = ''Top customers'', doc_text = ''SELECT 1'',
                   doc_tags = [''sql'', ''sql'', ''perf''], doc_user = ''alice'',
                   doc_isPublic = False, doc_shareId = None, doc_createdAt = 1000\<rparr>]"
  by code_simp

lemma ex_server2_value:
  "ex_server2 = [\<lparr>doc_id = ''q1'', doc_title = ''Top customers'', doc_text = ''SELECT 1'',
                   doc_tags = [''sql'', ''sql'', ''perf''], doc_user = ''alice'',
                   doc_isPublic = True, doc_shareId = Some ''0102030405060708090a0bff'',
                   doc_createdAt = 1000\<rparr>]"
  by code_simp

lemma ex_d1_1_value:
  "ex_d1_1 = \<lparr>queries = [\<lparr>row_id = 1, row_user_id = 1, row_title = ''Slow queries'',
                           row_text = ''SELECT 2'', row_is_public = 0, row_share_id = None,
                           row_created_at = 1000\<rparr>],
              query_tags = [(1, ''perf''), (1, ''db'')], d1_seq = 1\<rparr>"
  by code_simp

lemma ex_d1_2_value:
  "ex_d1_2 = \<lparr>queries = [\<lparr>row_id = 1, row_user_id = 1, row_title = ''Slow queries'',
                           row_text = ''SELECT 2'', row_is_public = 1,
                           row_share_id = Some ''123e456777fe'', row_created_at = 1000\<rparr>],
              query_tags = [(1, ''perf''), (1, ''db'')], d1_seq = 1\<rparr>"
  by code_simp

lemma ex_uuids: "is_uuid ex_uuid1" "is_uuid ex_uuid2"
  by code_simp+

lemma ex_server_reachable: "server_reachable ex_server1" "server_reachable ex_server2"
proof -
  show 1: "server_reachable ex_server1"
    unfolding ex_server1_def by (rule server_create[OF server_init])
  show "server_reachable ex_server2"
    unfolding ex_server2_def by (rule server_share[OF 1]) (simp add: ex_bytes_def)
qed

lemma ex_d1_reachable: "d1_reachable ex_d1_1" "d1_reachable ex_d1_2"
proof -
  show 1: "d1_reachable ex_d1_1"
    unfolding ex_d1_1_def by (rule d1_create[OF d1_init])
  show "d1_reachable ex_d1_2"
    unfolding ex_d1_2_def by (rule d1_share[OF 1 ex_uuids])
qed

text \<open>
  C3. In every reachable store a query has a share token exactly when it is public, and
  each of create, update, delete and share keeps it so: create stores the query
  non-public without a token, share sets both fields in one write. Both for the
  documents of \<^verbatim>\<open>server.js\<close> and for the rows of the D1 worker.
\<close>

theorem share_token_iff_public:
  "(server_reachable db \<longrightarrow> server_inv db) \<and>
   (server_inv db \<longrightarrow>
      server_inv (fst (server_post_queries db uid b new_id now)) \<and>
      server_inv (fst (server_put_query db uid i b)) \<and>
      server_inv (fst (server_delete_query db uid i)) \<and>
      server_inv (fst (server_share_query db uid i bytes))) \<and>
   (\<forall>q \<in> set (fst (server_post_queries db uid b new_id now)).
      q \<in> set db \<or> (\<not> doc_isPublic q \<and> doc_shareId q = None)) \<and>
   (\<forall>q \<in> set (fst (server_share_query db uid i bytes)).
      q \<in> set db \<or> (doc_isPublic q \<and> doc_shareId q = Some (toString_hex bytes))) \<and>
   (d1_reachable d \<longrightarrow> d1_inv d) \<and>
   (d1_inv d \<longrightarrow>
      d1_inv (fst (d1_post_queries d n b now)) \<and>
      d1_inv (fst (d1_put_query d n k b)) \<and>
      d1_inv (fst (d1_delete_query d n k)) \<and>
      d1_inv (fst (d1_share_query d n k uuid1 uuid2))) \<and>
   (\<forall>q \<in> set (queries (fst (d1_post_queries d n b now))).
      q \<in> set (queries d) \<or> (row_is_public q = 0 \<and> row_share_id q = None)) \<and>
   (\<forall>q \<in> set (queries (fst (d1_share_query d n k uuid1 uuid2))).
      q \<in> set (queries d) \<or> (row_is_public q = 1 \<and> row_share_id q \<noteq> None))"
proof -
  have "\<forall>q \<in> set (fst (server_post_queries db uid b new_id now)).
      q \<in> set db \<or> (\<not> doc_isPublic q \<and> doc_shareId q = None)"
    using server_post_frame[of _ db uid b new_id now] by blast
  moreover have "\<forall>q \<in> set (fst (server_share_query db uid i bytes)).
      q \<in> set db \<or> (doc_isPublic q \<and> doc_shareId q = Some (toString_hex bytes))"
    using server_share_frame[of _ db uid i bytes] by blast
  moreover have "\<forall>q \<in> set (queries (fst (d1_post_queries d n b now))).
      q \<in> set (queries d) \<or> (row_is_public q = 0 \<and> row_share_id q = None)"
    by (auto simp: d1_post_rows)
  moreover have "\<forall>q \<in> set (queries (fst (d1_share_query d n k uuid1 uuid2))).
      q \<in> set (queries d) \<or> (row_is_public q = 1 \<and> row_share_id q \<noteq> None)"
    using d1_share_rows[of d n k uuid1 uuid2] by auto
  moreover have "server_reachable db \<longrightarrow> server_inv db"
    by (simp add: server_inv_reachable)
  moreover have "d1_reachable d \<longrightarrow> d1_inv d"
    by (simp add: d1_inv_reachable)
  moreover have "server_inv db \<longrightarrow>
      server_inv (fst (server_post_queries db uid b new_id now)) \<and>
      server_inv (fst (server_put_query db uid i b)) \<and>
      server_inv (fst (server_delete_query db uid i)) \<and>
      server_inv (fst (server_share_query db uid i bytes))"
    by (simp add: server_inv_post server_inv_put server_inv_delete server_inv_share)
  moreover have "d1_inv d \<longrightarrow>
      d1_inv (fst (d1_post_queries d n b now)) \<and>
      d1_inv (fst (d1_put_query d n k b)) \<and>
      d1_inv (fst (d1_delete_query d n k)) \<and>
      d1_inv (fst (d1_share_query d n k uuid1 uuid2))"
    by (simp add: d1_inv_post d1_inv_put d1_inv_delete d1_inv_share)
  ultimately show ?thesis by (intro conjI)
qed

theorem share_token_iff_public_witness:
  "server_reachable ex_server2 \<and> server_inv ex_server2 \<and>
   server_inv (fst (server_put_query ex_server2 ''alice'' ''q1'' ex_body2)) \<and>
   map doc_isPublic ex_server2 = [True] \<and>
   map doc_shareId ex_server2 = [Some ''0102030405060708090a0bff''] \<and>
   map doc_isPublic ex_server1 = [False] \<and> map doc_shareId ex_server1 = [None] \<and>
   d1_reachable ex_d1_2 \<and> d1_inv ex_d1_2 \<and>
   d1_inv (fst (d1_delete_query ex_d1_2 1 1)) \<and>
   map row_is_public (queries ex_d1_2) = [1] \<and>
   map row_share_id (queries ex_d1_2) = [Some ''123e456777fe'']"
  using share_token_iff_public[where db = ex_server2 and uid = "''alice''" and b = ex_body2
          and i = "''q1''" and d = ex_d1_2 and n = 1 and k = 1]
    ex_server_reachable ex_d1_reachable
  by (simp add: ex_server2_value ex_server1_value ex_d1_2_value)

subsection \<open>Ownership\<close>

lemma member_toJSON_id: "member (toJSON d) ''_id'' = Some (JStr (doc_id d))"
  by (simp add: toJSON_def)

lemma server_isolation:
  assumes r: "server_reachable db" and q: "q \<in> set db" and o: "doc_user q \<noteq> caller"
    and n: "i' \<notin> doc_id ` set db"
  shows "\<forall>j \<in> set (elements (body (server_get_queries db caller))).
           member j ''_id'' \<noteq> Some (JStr (doc_id q))"
    and "server_delete_query db caller (doc_id q) =
           (db, (404, message ''Query not found or user not authorized.''))"
    and "server_delete_query db caller i' =
           (db, (404, message ''Query not found or user not authorized.''))"
    and "server_share_query db caller (doc_id q) bytes =
           (db, (404, message ''Query not found or user not authorized.''))"
    and "server_share_query db caller i' bytes =
           (db, (404, message ''Query not found or user not authorized.''))"
    and "server_put_query db caller (doc_id q) b = server_put_query db caller i' b"
    and "b_title b \<noteq> [] \<and> b_text b \<noteq> [] \<longrightarrow>
           server_put_query db caller (doc_id q) b =
             (db, (404, message ''Query not found or user not authorized.''))"
    and "b_title b = [] \<or> b_text b = [] \<longrightarrow>
           server_put_query db caller (doc_id q) b =
             (db, (400, message ''Title and text are required.''))"
proof -
  from server_wf_reachable[OF r] have d: "distinct (map doc_id db)" by (simp add: server_wf_def)
  have none: "\<forall>x \<in> set db. \<not> (doc_id x = doc_id q \<and> doc_user x = caller)"
    by (rule find_other_owner[OF d q o])
  have none': "\<forall>x \<in> set db. \<not> (doc_id x = i' \<and> doc_user x = caller)"
    using n by auto
  show "\<forall>j \<in> set (elements (body (server_get_queries db caller))).
           member j ''_id'' \<noteq> Some (JStr (doc_id q))"
    using none by (auto simp: server_get_queries_def body_def member_toJSON_id)
  have fd: "findOneAndDelete db (\<lambda>x. doc_id x = doc_id q \<and> doc_user x = caller) = None"
    using none by (simp add: findOneAndDelete_None)
  have fd': "findOneAndDelete db (\<lambda>x. doc_id x = i' \<and> doc_user x = caller) = None"
    using none' by (simp add: findOneAndDelete_None)
  show "server_delete_query db caller (doc_id q) =
           (db, (404, message ''Query not found or user not authorized.''))"
    by (simp add: server_delete_query_def fd)
  show "server_delete_query db caller i' =
           (db, (404, message ''Query not found or user not authorized.''))"
    by (simp add: server_delete_query_def fd')
  have f: "find (\<lambda>x. doc_id x = doc_id q \<and> doc_user x = caller) db = None"
    using none by (simp add: find_None_iff)
  have f': "find (\<lambda>x. doc_id x = i' \<and> doc_user x = caller) db = None"
    using none' by (simp add: find_None_iff)
  show "server_share_query db caller (doc_id q) bytes =
           (db, (404, message ''Query not found or user not authorized.''))"
    by (simp add: server_share_query_def f)
  show "server_share_query db caller i' bytes =
           (db, (404, message ''Query not found or user not authorized.''))"
    by (simp add: server_share_query_def f')
  have fu: "\<And>g. findOneAndUpdate db (\<lambda>x. doc_id x = doc_id q \<and> doc_user x = caller) g = None"
    using none by (simp add: findOneAndUpdate_None)
  have fu': "\<And>g. findOneAndUpdate db (\<lambda>x. doc_id x = i' \<and> doc_user x = caller) g = None"
    using none' by (simp add: findOneAndUpdate_None)
  show "server_put_query db caller (doc_id q) b = server_put_query db caller i' b"
    by (simp add: server_put_query_def fu fu')
  show "b_title b \<noteq> [] \<and> b_text b \<noteq> [] \<longrightarrow>
           server_put_query db caller (doc_id q) b =
             (db, (404, message ''Query not found or user not authorized.''))"
    by (simp add: server_put_query_def fu)
  show "b_title b = [] \<or> b_text b = [] \<longrightarrow>
           server_put_query db caller (doc_id q) b =
             (db, (400, message ''Title and text are required.''))"
    by (simp add: server_put_query_def)
qed

lemma member_formatted_id: "member (formatted db r) ''_id'' = Some (JNum (row_id r))"
  by (simp add: formatted_def)

lemma d1_isolation:
  assumes r: "d1_reachable db" and q: "q \<in> set (queries db)" and o: "row_user_id q \<noteq> caller"
    and n: "i' \<notin> row_id ` set (queries db)"
  shows "\<forall>j \<in> set (elements (body (d1_get_queries db caller))).
           member j ''_id'' \<noteq> Some (JNum (row_id q))"
    and "d1_delete_query db caller (row_id q) =
           (db, (404, message ''Query not found or unauthorized.''))"
    and "d1_delete_query db caller i' =
           (db, (404, message ''Query not found or unauthorized.''))"
    and "d1_share_query db caller (row_id q) uuid1 uuid2 =
           (db, (404, message ''Query not found or unauthorized.''))"
    and "d1_share_query db caller i' uuid1 uuid2 =
           (db, (404, message ''Query not found or unauthorized.''))"
    and "d1_put_query db caller (row_id q) b =
           (db, (404, message ''Query not found or unauthorized.''))"
    and "d1_put_query db caller i' b =
           (db, (404, message ''Query not found or unauthorized.''))"
proof -
  from d1_wf_reachable[OF r] have d: "distinct (map row_id (queries db))" by (simp add: d1_wf_def)
  have none: "\<forall>x \<in> set (queries db). \<not> (row_id x = row_id q \<and> row_user_id x = caller)"
    using d q o by (auto simp: distinct_map inj_on_def)
  have none': "\<forall>x \<in> set (queries db). \<not> (row_id x = i' \<and> row_user_id x = caller)"
    using n by auto
  show "\<forall>j \<in> set (elements (body (d1_get_queries db caller))).
           member j ''_id'' \<noteq> Some (JNum (row_id q))"
    using none by (auto simp: d1_get_queries_def body_def member_formatted_id)
  have e: "filter (\<lambda>x. row_id x = row_id q \<and> row_user_id x = caller) (queries db) = []"
    using none by (simp add: filter_empty_conv)
  have e': "filter (\<lambda>x. row_id x = i' \<and> row_user_id x = caller) (queries db) = []"
    using none' by (simp add: filter_empty_conv)
  show "d1_delete_query db caller (row_id q) =
           (db, (404, message ''Query not found or unauthorized.''))"
    by (simp add: d1_delete_query_def e)
  show "d1_delete_query db caller i' =
           (db, (404, message ''Query not found or unauthorized.''))"
    by (simp add: d1_delete_query_def e')
  show "d1_put_query db caller (row_id q) b =
           (db, (404, message ''Query not found or unauthorized.''))"
    by (simp add: d1_put_query_def e)
  show "d1_put_query db caller i' b =
           (db, (404, message ''Query not found or unauthorized.''))"
    by (simp add: d1_put_query_def e')
  have f: "find (\<lambda>x. row_id x = row_id q \<and> row_user_id x = caller) (queries db) = None"
    using none by (simp add: find_None_iff)
  have f': "find (\<lambda>x. row_id x = i' \<and> row_user_id x = caller) (queries db) = None"
    using none' by (simp add: find_None_iff)
  show "d1_share_query db caller (row_id q) uuid1 uuid2 =
           (db, (404, message ''Query not found or unauthorized.''))"
    by (simp add: d1_share_query_def f)
  show "d1_share_query db caller i' uuid1 uuid2 =
           (db, (404, message ''Query not found or unauthorized.''))"
    by (simp add: d1_share_query_def f')
qed

lemma ex_d1_2_facts:
  "hd (queries ex_d1_2) \<in> set (queries ex_d1_2)" "row_user_id (hd (queries ex_d1_2)) = 1"
  "row_id (hd (queries ex_d1_2)) = 1" "row_id ` set (queries ex_d1_2) = {1}"
  by (simp_all add: ex_d1_2_value)

lemma ex_serverA_reachable: "server_reachable ex_serverA"
  unfolding ex_serverA_def by (rule server_create[OF server_init])

lemma ex_serverA_facts:
  "hd ex_serverA \<in> set ex_serverA" "doc_user (hd ex_serverA) = ''alice''"
  "doc_id (hd ex_serverA) = ex_oid1" "ex_oid9 \<notin> doc_id ` set ex_serverA"
  "map doc_user ex_serverA = [''alice'']" "map doc_id ex_serverA = [ex_oid1]"
  by code_simp+

lemma ex_cast_facts:
  "ex_cast ex_oid1 = Some ex_oid1" "ex_cast ex_oid9 = Some ex_oid9" "ex_cast ''q1'' = None"
  by code_simp+

lemma server_routes_cast:
  "cast p = Some i \<Longrightarrow> server_delete_route cast db uid p = server_delete_query db uid i"
  "cast p = Some i \<Longrightarrow> server_share_route cast db uid p bytes = server_share_query db uid i bytes"
  "cast p = Some i \<Longrightarrow> server_put_route cast db uid p b = server_put_query db uid i b"
  by (simp_all add: server_delete_route_def server_share_route_def server_put_route_def
        server_put_query_def)

text \<open>
  C1, as the handlers have it. For a stored query \<open>q\<close> of another user than the caller,
  in any reachable store: the caller's list never holds \<open>q\<close>; delete and share with
  \<open>q\<close>'s id answer 404 and change nothing; update answers and does exactly what it
  does for a well-formed id that matches no query at all, which is 404 whenever the
  body passes the handler's own check (\<^verbatim>\<open>server.js\<close> answers 400 to an empty title or
  text before it looks the query up; the D1 worker has no such check and always answers
  404). In \<^verbatim>\<open>server.js\<close> the ids are the strings \<open>p\<close>, \<open>p'\<close> of the request that
  Mongoose casts to an ObjectId; a string \<open>z\<close> that it cannot cast is answered 500,
  whoever asks and whatever is stored.
\<close>

theorem owner_isolation:
  "(server_reachable db \<and> q \<in> set db \<and> doc_user q \<noteq> caller \<and>
    cast p = Some (doc_id q) \<and> cast p' = Some i' \<and> i' \<notin> doc_id ` set db \<longrightarrow>
      (\<forall>j \<in> set (elements (body (server_get_queries db caller))).
           member j ''_id'' \<noteq> Some (JStr (doc_id q))) \<and>
      server_delete_route cast db caller p =
           (db, (404, message ''Query not found or user not authorized.'')) \<and>
      server_delete_route cast db caller p = server_delete_route cast db caller p' \<and>
      server_share_route cast db caller p bytes =
           (db, (404, message ''Query not found or user not authorized.'')) \<and>
      server_share_route cast db caller p bytes = server_share_route cast db caller p' bytes \<and>
      server_put_route cast db caller p b = server_put_route cast db caller p' b \<and>
      (b_title b \<noteq> [] \<and> b_text b \<noteq> [] \<longrightarrow>
         server_put_route cast db caller p b =
           (db, (404, message ''Query not found or user not authorized.''))) \<and>
      (b_title b = [] \<or> b_text b = [] \<longrightarrow>
         server_put_route cast db caller p b =
           (db, (400, message ''Title and text are required.'')))) \<and>
   (cast z = None \<longrightarrow>
      server_delete_route cast db caller z = (db, (500, message ''Error deleting query.'')) \<and>
      server_share_route cast db caller z bytes = (db, (500, message ''Error sharing query.'')) \<and>
      (b_title b \<noteq> [] \<and> b_text b \<noteq> [] \<longrightarrow>
         server_put_route cast db caller z b = (db, (500, message ''Error updating query.'')))) \<and>
   (d1_reachable d \<and> r \<in> set (queries d) \<and> row_user_id r \<noteq> c \<and> k' \<notin> row_id ` set (queries d) \<longrightarrow>
      (\<forall>j \<in> set (elements (body (d1_get_queries d c))).
           member j ''_id'' \<noteq> Some (JNum (row_id r))) \<and>
      d1_delete_query d c (row_id r) = (d, (404, message ''Query not found or unauthorized.'')) \<and>
      d1_delete_query d c (row_id r) = d1_delete_query d c k' \<and>
      d1_share_query d c (row_id r) u v =
           (d, (404, message ''Query not found or unauthorized.'')) \<and>
      d1_share_query d c (row_id r) u v = d1_share_query d c k' u v \<and>
      d1_put_query d c (row_id r) b = (d, (404, message ''Query not found or unauthorized.'')) \<and>
      d1_put_query d c (row_id r) b = d1_put_query d c k' b)"
proof (intro conjI impI)
  assume a: "server_reachable db \<and> q \<in> set db \<and> doc_user q \<noteq> caller \<and>
    cast p = Some (doc_id q) \<and> cast p' = Some i' \<and> i' \<notin> doc_id ` set db"
  then have r: "server_reachable db" and q: "q \<in> set db" and o: "doc_user q \<noteq> caller"
    and cp: "cast p = Some (doc_id q)" and cp': "cast p' = Some i'"
    and n: "i' \<notin> doc_id ` set db" by simp_all
  note s = server_isolation[OF r q o n]
  note c = server_routes_cast[where cast = cast and p = p, OF cp]
    server_routes_cast[where cast = cast and p = p', OF cp']
  show "\<forall>j \<in> set (elements (body (server_get_queries db caller))).
           member j ''_id'' \<noteq> Some (JStr (doc_id q))" by (rule s(1))
  show "server_delete_route cast db caller p =
           (db, (404, message ''Query not found or user not authorized.''))"
    by (simp only: c s(2))
  show "server_delete_route cast db caller p = server_delete_route cast db caller p'"
    by (simp only: c s(2) s(3))
  show "server_share_route cast db caller p bytes =
           (db, (404, message ''Query not found or user not authorized.''))"
    by (simp only: c s(4))
  show "server_share_route cast db caller p bytes = server_share_route cast db caller p' bytes"
    by (simp only: c s(4) s(5))
  show "server_put_route cast db caller p b = server_put_route cast db caller p' b"
    by (simp only: c s(6))
  { assume "b_title b \<noteq> [] \<and> b_text b \<noteq> []"
    with s(7)[of b] show "server_put_route cast db caller p b =
           (db, (404, message ''Query not found or user not authorized.''))"
      by (simp add: c) }
  { assume "b_title b = [] \<or> b_text b = []"
    with s(8)[of b] show "server_put_route cast db caller p b =
           (db, (400, message ''Title and text are required.''))"
      by (simp add: c) }
next
  assume z: "cast z = None"
  show "server_delete_route cast db caller z = (db, (500, message ''Error deleting query.''))"
    by (simp add: server_delete_route_def z)
  show "server_share_route cast db caller z bytes = (db, (500, message ''Error sharing query.''))"
    by (simp add: server_share_route_def z)
  { assume "b_title b \<noteq> [] \<and> b_text b \<noteq> []"
    then show "server_put_route cast db caller z b =
        (db, (500, message ''Error updating query.''))"
      by (simp add: server_put_route_def z) }
next
  assume a: "d1_reachable d \<and> r \<in> set (queries d) \<and> row_user_id r \<noteq> c \<and> k' \<notin> row_id ` set (queries d)"
  then have r: "d1_reachable d" and q: "r \<in> set (queries d)" and o: "row_user_id r \<noteq> c"
    and n: "k' \<notin> row_id ` set (queries d)" by simp_all
  note s = d1_isolation[OF r q o n]
  show "\<forall>j \<in> set (elements (body (d1_get_queries d c))).
           member j ''_id'' \<noteq> Some (JNum (row_id r))" by (rule s(1))
  show "d1_delete_query d c (row_id r) = (d, (404, message ''Query not found or unauthorized.''))"
    by (rule s(2))
  show "d1_delete_query d c (row_id r) = d1_delete_query d c k'" by (simp only: s(2) s(3))
  show "d1_share_query d c (row_id r) u v =
           (d, (404, message ''Query not found or unauthorized.''))" by (rule s(4))
  show "d1_share_query d c (row_id r) u v = d1_share_query d c k' u v"
    by (simp only: s(4) s(5))
  show "d1_put_query d c (row_id r) b = (d, (404, message ''Query not found or unauthorized.''))"
    by (rule s(6))
  show "d1_put_query d c (row_id r) b = d1_put_query d c k' b" by (simp only: s(6) s(7))
qed

theorem owner_isolation_witness:
  "server_reachable ex_serverA \<and> hd ex_serverA \<in> set ex_serverA \<and>
   doc_user (hd ex_serverA) \<noteq> ''bob'' \<and> ex_cast ex_oid1 = Some (doc_id (hd ex_serverA)) \<and>
   ex_cast ex_oid9 = Some ex_oid9 \<and> ex_oid9 \<notin> doc_id ` set ex_serverA \<and>
   server_delete_route ex_cast ex_serverA ''bob'' ex_oid1 =
     (ex_serverA, (404, message ''Query not found or user not authorized.'')) \<and>
   server_share_route ex_cast ex_serverA ''bob'' ex_oid1 ex_bytes =
     server_share_route ex_cast ex_serverA ''bob'' ex_oid9 ex_bytes \<and>
   server_put_route ex_cast ex_serverA ''bob'' ex_oid1 ex_body2 =
     (ex_serverA, (404, message ''Query not found or user not authorized.'')) \<and>
   ex_cast ''q1'' = None \<and>
   server_delete_route ex_cast ex_serverA ''bob'' ''q1'' =
     (ex_serverA, (500, message ''Error deleting query.'')) \<and>
   d1_reachable ex_d1_2 \<and> hd (queries ex_d1_2) \<in> set (queries ex_d1_2) \<and>
   row_user_id (hd (queries ex_d1_2)) \<noteq> 2 \<and> 9 \<notin> row_id ` set (queries ex_d1_2) \<and>
   d1_delete_query ex_d1_2 2 1 = (ex_d1_2, (404, message ''Query not found or unauthorized.'')) \<and>
   d1_put_query ex_d1_2 2 1 ex_body = d1_put_query ex_d1_2 2 9 ex_body \<and>
   d1_share_query ex_d1_2 2 1 ex_uuid1 ex_uuid2 =
     (ex_d1_2, (404, message ''Query not found or unauthorized.''))"
proof -
  have h1: "server_reachable ex_serverA \<and> hd ex_serverA \<in> set ex_serverA \<and>
      doc_user (hd ex_serverA) \<noteq> ''bob'' \<and> ex_cast ex_oid1 = Some (doc_id (hd ex_serverA)) \<and>
      ex_cast ex_oid9 = Some ex_oid9 \<and> ex_oid9 \<notin> doc_id ` set ex_serverA"
    using ex_serverA_reachable by (simp add: ex_serverA_facts ex_cast_facts)
  have h2: "d1_reachable ex_d1_2 \<and> hd (queries ex_d1_2) \<in> set (queries ex_d1_2) \<and>
      row_user_id (hd (queries ex_d1_2)) \<noteq> 2 \<and> 9 \<notin> row_id ` set (queries ex_d1_2)"
    using ex_d1_reachable(2) by (simp add: ex_d1_2_facts)
  note T = owner_isolation[where db = ex_serverA and q = "hd ex_serverA"
          and caller = "''bob''" and cast = ex_cast and p = ex_oid1 and p' = ex_oid9
          and i' = ex_oid9 and z = "''q1''" and bytes = ex_bytes and b = ex_body2
          and d = ex_d1_2 and r = "hd (queries ex_d1_2)" and c = 2 and k' = 9
          and u = ex_uuid1 and v = ex_uuid2]
  note S = mp[OF T[THEN conjunct1] h1]
  note Z = mp[OF T[THEN conjunct2, THEN conjunct1] ex_cast_facts(3)]
  note D = mp[OF owner_isolation[where d = ex_d1_2 and r = "hd (queries ex_d1_2)" and c = 2
          and k' = 9 and b = ex_body and u = ex_uuid1 and v = ex_uuid2,
          THEN conjunct2, THEN conjunct2] h2, unfolded ex_d1_2_facts(3)]
  have b2: "b_title ex_body2 \<noteq> [] \<and> b_text ex_body2 \<noteq> []" by (simp add: ex_body2_def)
  from S b2 have "server_delete_route ex_cast ex_serverA ''bob'' ex_oid1 =
     (ex_serverA, (404, message ''Query not found or user not authorized.'')) \<and>
   server_share_route ex_cast ex_serverA ''bob'' ex_oid1 ex_bytes =
     server_share_route ex_cast ex_serverA ''bob'' ex_oid9 ex_bytes \<and>
   server_put_route ex_cast ex_serverA ''bob'' ex_oid1 ex_body2 =
     (ex_serverA, (404, message ''Query not found or user not authorized.''))" by blast
  moreover from Z have "server_delete_route ex_cast ex_serverA ''bob'' ''q1'' =
     (ex_serverA, (500, message ''Error deleting query.''))" by blast
  moreover from D have "d1_delete_query ex_d1_2 2 1 = (ex_d1_2, (404, message ''Query not found or unauthorized.'')) \<and>
   d1_put_query ex_d1_2 2 1 ex_body = d1_put_query ex_d1_2 2 9 ex_body \<and>
   d1_share_query ex_d1_2 2 1 ex_uuid1 ex_uuid2 =
     (ex_d1_2, (404, message ''Query not found or unauthorized.''))" by blast
  ultimately show ?thesis using h1 h2 ex_cast_facts(3) by blast
qed

text \<open>C1 as stated fails on \<^verbatim>\<open>server.js\<close>: an update by another user with an empty title
  is answered 400 (validation), not 404.\<close>

theorem owner_isolation_counterexample:
  "map doc_user ex_serverA = [''alice''] \<and> map doc_id ex_serverA = [ex_oid1] \<and>
   ex_cast ex_oid1 = Some ex_oid1 \<and>
   server_put_route ex_cast ex_serverA ''bob'' ex_oid1 (ex_body\<lparr>b_title := []\<rparr>) =
     (ex_serverA, (400, message ''Title and text are required.'')) \<and>
   status (snd (server_put_route ex_cast ex_serverA ''bob'' ex_oid1 (ex_body\<lparr>b_title := []\<rparr>))) \<noteq> 404"
  by (simp add: ex_serverA_facts ex_cast_facts server_put_route_def status_def)

subsection \<open>Sharing\<close>

lemma server_share_public:
  assumes wf: "server_wf db" and q: "q \<in> set db" and p: "doc_isPublic q"
  shows "doc_shareId q \<noteq> None"
    and "server_share_query db (doc_user q) (doc_id q) bytes =
           (db, (200, JObj [(''shareId'', JStr (the (doc_shareId q)))]))"
proof -
  from wf have d: "distinct (map doc_id db)" by (simp add: server_wf_def)
  from wf q p have t: "truthy (doc_shareId q)" by (simp add: server_wf_def)
  then show n: "doc_shareId q \<noteq> None" by (auto simp: truthy_def split: option.splits)
  from find_by_id[OF d q] p t n
  show "server_share_query db (doc_user q) (doc_id q) bytes =
           (db, (200, JObj [(''shareId'', JStr (the (doc_shareId q)))]))"
    by (auto simp: server_share_query_def)
qed

lemma server_share_private:
  assumes wf: "server_wf db" and q: "q \<in> set db" and p: "\<not> doc_isPublic q"
  shows "server_share_query db (doc_user q) (doc_id q) bytes =
           (if shareId_taken db (doc_id q) (toString_hex bytes)
            then (db, (500, message ''Error sharing query.''))
            else (replace_doc db (q\<lparr>doc_shareId := Some (toString_hex bytes), doc_isPublic := True\<rparr>),
                  (200, JObj [(''shareId'', JStr (toString_hex bytes))])))"
proof -
  from wf have d: "distinct (map doc_id db)" by (simp add: server_wf_def)
  from find_by_id[OF d q] p show ?thesis
    by (simp add: server_share_query_def save_doc_def Let_def)
qed

lemma server_share_twice:
  assumes wf: "server_wf db" and q: "q \<in> set db" and len: "length bytes = 12"
    and ok: "status (snd (server_share_query db (doc_user q) (doc_id q) bytes)) = 200"
  shows "server_share_query (fst (server_share_query db (doc_user q) (doc_id q) bytes))
            (doc_user q) (doc_id q) bytes' =
           server_share_query db (doc_user q) (doc_id q) bytes"
    and "\<exists>q1 \<in> set (fst (server_share_query db (doc_user q) (doc_id q) bytes)).
            doc_id q1 = doc_id q \<and> doc_isPublic q1"
proof -
  let ?r = "server_share_query db (doc_user q) (doc_id q) bytes"
  have "server_share_query (fst ?r) (doc_user q) (doc_id q) bytes' = ?r \<and>
        (\<exists>q1 \<in> set (fst ?r). doc_id q1 = doc_id q \<and> doc_isPublic q1)"
  proof (cases "doc_isPublic q")
    case True
    from server_share_public(2)[OF wf q True] q True show ?thesis by auto
  next
    case False
    let ?q' = "q\<lparr>doc_shareId := Some (toString_hex bytes), doc_isPublic := True\<rparr>"
    from ok server_share_private[OF wf q False, of bytes]
    have r: "?r = (replace_doc db ?q', (200, JObj [(''shareId'', JStr (toString_hex bytes))]))"
      by (auto simp: status_def split: if_splits)
    have wf': "server_wf (replace_doc db ?q')"
      using server_wf_share[OF wf len, of "doc_user q" "doc_id q"] r by simp
    have m: "?q' \<in> set (replace_doc db ?q')"
      using q by (intro replace_doc_mem) auto
    have p1: "doc_isPublic ?q'" by simp
    have e: "\<exists>q1 \<in> set (replace_doc db ?q'). doc_id q1 = doc_id q \<and> doc_isPublic q1"
      using m by (intro bexI[of _ ?q']) simp_all
    from server_share_public(2)[OF wf' m p1, of bytes']
    have "server_share_query (replace_doc db ?q') (doc_user q) (doc_id q) bytes' =
            (replace_doc db ?q', (200, JObj [(''shareId'', JStr (toString_hex bytes))]))" by simp
    with r e show ?thesis by simp
  qed
  then show "server_share_query (fst ?r) (doc_user q) (doc_id q) bytes' = ?r"
    and "\<exists>q1 \<in> set (fst ?r). doc_id q1 = doc_id q \<and> doc_isPublic q1" by simp_all
qed

lemma server_share_fresh:
  assumes wf: "server_wf db" and q: "q \<in> set db"
    and fresh: "\<not> shareId_taken db (doc_id q) (toString_hex bytes)"
  shows "status (snd (server_share_query db (doc_user q) (doc_id q) bytes)) = 200"
proof (cases "doc_isPublic q")
  case True
  from server_share_public(2)[OF wf q True] show ?thesis by (simp add: status_def)
next
  case False
  from server_share_private[OF wf q False] fresh show ?thesis by (simp add: status_def)
qed

lemma d1_find_by_id:
  "distinct (map row_id rows) \<Longrightarrow> q \<in> set rows \<Longrightarrow>
     find (\<lambda>x. row_id x = row_id q \<and> row_user_id x = row_user_id q) rows = Some q"
  by (induction rows) (auto simp: image_iff)

lemma d1_share_public:
  assumes wf: "d1_wf db" and q: "q \<in> set (queries db)" and p: "row_is_public q \<noteq> 0"
  shows "row_share_id q \<noteq> None"
    and "d1_share_query db (row_user_id q) (row_id q) u v =
           (db, (200, JObj [(''shareId'', JStr (the (row_share_id q)))]))"
proof -
  from wf have d: "distinct (map row_id (queries db))" by (simp add: d1_wf_def)
  from wf q p have t: "truthy (row_share_id q)" by (simp add: d1_wf_def)
  then show n: "row_share_id q \<noteq> None" by (auto simp: truthy_def split: option.splits)
  from d1_find_by_id[OF d q] p t n
  show "d1_share_query db (row_user_id q) (row_id q) u v =
           (db, (200, JObj [(''shareId'', JStr (the (row_share_id q)))]))"
    by (auto simp: d1_share_query_def json_null_def)
qed

lemma d1_share_private:
  assumes wf: "d1_wf db" and q: "q \<in> set (queries db)" and p: "row_is_public q = 0"
  shows "d1_share_query db (row_user_id q) (row_id q) u v =
           (if share_id_taken db (row_id q) (part (split CHR ''-'' u) 0 @ part (split CHR ''-'' v) 1)
            then (db, internal_error)
            else (db\<lparr>queries := map (\<lambda>x. if row_id x = row_id q
                       then x\<lparr>row_share_id := Some (part (split CHR ''-'' u) 0 @ part (split CHR ''-'' v) 1),
                              row_is_public := 1\<rparr>
                       else x) (queries db)\<rparr>,
                  (200, JObj [(''shareId'', JStr (part (split CHR ''-'' u) 0 @ part (split CHR ''-'' v) 1))])))"
proof -
  from wf have d: "distinct (map row_id (queries db))" by (simp add: d1_wf_def)
  from d1_find_by_id[OF d q] p show ?thesis
    by (simp add: d1_share_query_def Let_def)
qed

lemma d1_share_twice:
  assumes wf: "d1_wf db" and q: "q \<in> set (queries db)" and u: "is_uuid u" and v: "is_uuid v"
    and ok: "status (snd (d1_share_query db (row_user_id q) (row_id q) u v)) = 200"
  shows "d1_share_query (fst (d1_share_query db (row_user_id q) (row_id q) u v))
            (row_user_id q) (row_id q) u' v' =
           d1_share_query db (row_user_id q) (row_id q) u v"
    and "\<exists>q1 \<in> set (queries (fst (d1_share_query db (row_user_id q) (row_id q) u v))).
            row_id q1 = row_id q \<and> row_is_public q1 \<noteq> 0"
proof -
  let ?r = "d1_share_query db (row_user_id q) (row_id q) u v"
  have "d1_share_query (fst ?r) (row_user_id q) (row_id q) u' v' = ?r \<and>
        (\<exists>q1 \<in> set (queries (fst ?r)). row_id q1 = row_id q \<and> row_is_public q1 \<noteq> 0)"
  proof (cases "row_is_public q \<noteq> 0")
    case True
    from d1_share_public(2)[OF wf q True] q True show ?thesis by auto
  next
    case False
    let ?t = "part (split CHR ''-'' u) 0 @ part (split CHR ''-'' v) 1"
    let ?q' = "q\<lparr>row_share_id := Some ?t, row_is_public := 1\<rparr>"
    let ?db' = "db\<lparr>queries := map (\<lambda>x. if row_id x = row_id q
                       then x\<lparr>row_share_id := Some ?t, row_is_public := 1\<rparr>
                       else x) (queries db)\<rparr>"
    from False have p0: "row_is_public q = 0" by simp
    from ok d1_share_private[OF wf q p0, of u v]
    have r: "?r = (?db', (200, JObj [(''shareId'', JStr ?t)]))"
      by (auto simp: status_def internal_error_def split: if_splits)
    have wf': "d1_wf ?db'"
      using d1_wf_share[OF wf u v, of "row_user_id q" "row_id q"] r by simp
    have m: "?q' \<in> set (queries ?db')"
      using q by (auto simp: image_iff intro!: bexI[of _ q])
    have p1: "row_is_public ?q' \<noteq> 0" by simp
    have e: "\<exists>q1 \<in> set (queries ?db'). row_id q1 = row_id q \<and> row_is_public q1 \<noteq> 0"
      using m by (intro bexI[of _ ?q']) simp_all
    from d1_share_public(2)[OF wf' m p1, of u' v']
    have "d1_share_query ?db' (row_user_id q) (row_id q) u' v' =
            (?db', (200, JObj [(''shareId'', JStr ?t)]))" by simp
    with r e show ?thesis by simp
  qed
  then show "d1_share_query (fst ?r) (row_user_id q) (row_id q) u' v' = ?r"
    and "\<exists>q1 \<in> set (queries (fst ?r)). row_id q1 = row_id q \<and> row_is_public q1 \<noteq> 0" by simp_all
qed

lemma d1_share_fresh:
  assumes wf: "d1_wf db" and q: "q \<in> set (queries db)"
    and fresh: "\<not> share_id_taken db (row_id q) (part (split CHR ''-'' u) 0 @ part (split CHR ''-'' v) 1)"
  shows "status (snd (d1_share_query db (row_user_id q) (row_id q) u v)) = 200"
proof (cases "row_is_public q \<noteq> 0")
  case True
  from d1_share_public(2)[OF wf q True] show ?thesis by (simp add: status_def)
next
  case False
  then have "row_is_public q = 0" by simp
  from d1_share_private[OF wf q this] fresh show ?thesis by (simp add: status_def)
qed

lemma ex_server1_facts:
  "hd ex_server1 \<in> set ex_server1" "doc_user (hd ex_server1) = ''alice''"
  "doc_id (hd ex_server1) = ''q1''"
  by (simp_all add: ex_server1_value)

lemma ex_d1_1_facts:
  "hd (queries ex_d1_1) \<in> set (queries ex_d1_1)" "row_user_id (hd (queries ex_d1_1)) = 1"
  "row_id (hd (queries ex_d1_1)) = 1"
  by (simp_all add: ex_d1_1_value)

lemma ex_server_share:
  "server_share_query ex_server1 ''alice'' ''q1'' ex_bytes =
     (ex_server2, (200, JObj [(''shareId'', JStr ''0102030405060708090a0bff'')]))"
proof -
  have "snd (server_share_query ex_server1 ''alice'' ''q1'' ex_bytes) =
          (200, JObj [(''shareId'', JStr ''0102030405060708090a0bff'')])"
    by code_simp
  then show ?thesis by (simp add: ex_server2_def prod_eq_iff)
qed

lemma ex_d1_share:
  "d1_share_query ex_d1_1 1 1 ex_uuid1 ex_uuid2 =
     (ex_d1_2, (200, JObj [(''shareId'', JStr ''123e456777fe'')]))"
proof -
  have "snd (d1_share_query ex_d1_1 1 1 ex_uuid1 ex_uuid2) =
          (200, JObj [(''shareId'', JStr ''123e456777fe'')])"
    by code_simp
  then show ?thesis by (simp add: ex_d1_2_def prod_eq_iff)
qed

text \<open>
  C2. On a reachable store, for a stored query and its owner: if the query is public,
  share answers 200 with the share id the query already has and leaves the store as it
  is; and when a first share call succeeds, a second call (whatever the random source
  then yields) gives the same store and the same response, so the same share id, and
  the query is public after the first call and after the second. A first call succeeds
  unless the freshly drawn id is already the share id of another query. The random
  source yields 12 bytes (\<^verbatim>\<open>server.js\<close>), resp. two UUIDs (D1 worker).
\<close>

theorem share_idempotent:
  "(server_reachable db \<and> q \<in> set db \<longrightarrow>
      (doc_isPublic q \<longrightarrow>
         doc_shareId q \<noteq> None \<and>
         server_share_query db (doc_user q) (doc_id q) bytes =
           (db, (200, JObj [(''shareId'', JStr (the (doc_shareId q)))]))) \<and>
      (length bytes = 12 \<and>
       status (snd (server_share_query db (doc_user q) (doc_id q) bytes)) = 200 \<longrightarrow>
         server_share_query (fst (server_share_query db (doc_user q) (doc_id q) bytes))
             (doc_user q) (doc_id q) bytes' =
           server_share_query db (doc_user q) (doc_id q) bytes \<and>
         (\<exists>q1 \<in> set (fst (server_share_query db (doc_user q) (doc_id q) bytes)).
             doc_id q1 = doc_id q \<and> doc_isPublic q1)) \<and>
      (\<not> shareId_taken db (doc_id q) (toString_hex bytes) \<longrightarrow>
         status (snd (server_share_query db (doc_user q) (doc_id q) bytes)) = 200)) \<and>
   (d1_reachable d \<and> r \<in> set (queries d) \<longrightarrow>
      (row_is_public r \<noteq> 0 \<longrightarrow>
         row_share_id r \<noteq> None \<and>
         d1_share_query d (row_user_id r) (row_id r) u v =
           (d, (200, JObj [(''shareId'', JStr (the (row_share_id r)))]))) \<and>
      (is_uuid u \<and> is_uuid v \<and>
       status (snd (d1_share_query d (row_user_id r) (row_id r) u v)) = 200 \<longrightarrow>
         d1_share_query (fst (d1_share_query d (row_user_id r) (row_id r) u v))
             (row_user_id r) (row_id r) u' v' =
           d1_share_query d (row_user_id r) (row_id r) u v \<and>
         (\<exists>q1 \<in> set (queries (fst (d1_share_query d (row_user_id r) (row_id r) u v))).
             row_id q1 = row_id r \<and> row_is_public q1 \<noteq> 0)) \<and>
      (\<not> share_id_taken d (row_id r) (part (split CHR ''-'' u) 0 @ part (split CHR ''-'' v) 1) \<longrightarrow>
         status (snd (d1_share_query d (row_user_id r) (row_id r) u v)) = 200))"
proof (intro conjI impI)
  assume a: "server_reachable db \<and> q \<in> set db"
  then have wf: "server_wf db" and q: "q \<in> set db" by (simp_all add: server_wf_reachable)
  { assume p: "doc_isPublic q"
    from server_share_public[OF wf q p]
    show "doc_shareId q \<noteq> None"
      and "server_share_query db (doc_user q) (doc_id q) bytes =
           (db, (200, JObj [(''shareId'', JStr (the (doc_shareId q)))]))" by simp_all }
  { assume "length bytes = 12 \<and>
       status (snd (server_share_query db (doc_user q) (doc_id q) bytes)) = 200"
    then have len: "length bytes = 12"
      and ok: "status (snd (server_share_query db (doc_user q) (doc_id q) bytes)) = 200"
      by simp_all
    from server_share_twice[OF wf q len ok]
    show "server_share_query (fst (server_share_query db (doc_user q) (doc_id q) bytes))
             (doc_user q) (doc_id q) bytes' =
           server_share_query db (doc_user q) (doc_id q) bytes"
      and "\<exists>q1 \<in> set (fst (server_share_query db (doc_user q) (doc_id q) bytes)).
             doc_id q1 = doc_id q \<and> doc_isPublic q1" by simp_all }
  { assume "\<not> shareId_taken db (doc_id q) (toString_hex bytes)"
    from server_share_fresh[OF wf q this]
    show "status (snd (server_share_query db (doc_user q) (doc_id q) bytes)) = 200" . }
next
  assume a: "d1_reachable d \<and> r \<in> set (queries d)"
  then have wf: "d1_wf d" and q: "r \<in> set (queries d)" by (simp_all add: d1_wf_reachable)
  { assume p: "row_is_public r \<noteq> 0"
    from d1_share_public[OF wf q p]
    show "row_share_id r \<noteq> None"
      and "d1_share_query d (row_user_id r) (row_id r) u v =
           (d, (200, JObj [(''shareId'', JStr (the (row_share_id r)))]))" by simp_all }
  { assume "is_uuid u \<and> is_uuid v \<and>
       status (snd (d1_share_query d (row_user_id r) (row_id r) u v)) = 200"
    then have u: "is_uuid u" and v: "is_uuid v"
      and ok: "status (snd (d1_share_query d (row_user_id r) (row_id r) u v)) = 200"
      by simp_all
    from d1_share_twice[OF wf q u v ok]
    show "d1_share_query (fst (d1_share_query d (row_user_id r) (row_id r) u v))
             (row_user_id r) (row_id r) u' v' =
           d1_share_query d (row_user_id r) (row_id r) u v"
      and "\<exists>q1 \<in> set (queries (fst (d1_share_query d (row_user_id r) (row_id r) u v))).
             row_id q1 = row_id r \<and> row_is_public q1 \<noteq> 0" by simp_all }
  { assume "\<not> share_id_taken d (row_id r) (part (split CHR ''-'' u) 0 @ part (split CHR ''-'' v) 1)"
    from d1_share_fresh[OF wf q this]
    show "status (snd (d1_share_query d (row_user_id r) (row_id r) u v)) = 200" . }
qed

theorem share_idempotent_witness:
  "server_reachable ex_server1 \<and> hd ex_server1 \<in> set ex_server1 \<and> length ex_bytes = 12 \<and>
   status (snd (server_share_query ex_server1 ''alice'' ''q1'' ex_bytes)) = 200 \<and>
   server_share_query ex_server1 ''alice'' ''q1'' ex_bytes =
     (ex_server2, (200, JObj [(''shareId'', JStr ''0102030405060708090a0bff'')])) \<and>
   server_share_query ex_server2 ''alice'' ''q1'' (rev ex_bytes) =
     (ex_server2, (200, JObj [(''shareId'', JStr ''0102030405060708090a0bff'')])) \<and>
   map doc_isPublic ex_server1 = [False] \<and> map doc_isPublic ex_server2 = [True] \<and>
   d1_reachable ex_d1_1 \<and> hd (queries ex_d1_1) \<in> set (queries ex_d1_1) \<and>
   is_uuid ex_uuid1 \<and> is_uuid ex_uuid2 \<and>
   status (snd (d1_share_query ex_d1_1 1 1 ex_uuid1 ex_uuid2)) = 200 \<and>
   d1_share_query ex_d1_1 1 1 ex_uuid1 ex_uuid2 =
     (ex_d1_2, (200, JObj [(''shareId'', JStr ''123e456777fe'')])) \<and>
   d1_share_query ex_d1_2 1 1 ex_uuid2 ex_uuid1 =
     (ex_d1_2, (200, JObj [(''shareId'', JStr ''123e456777fe'')])) \<and>
   map row_is_public (queries ex_d1_1) = [0] \<and> map row_is_public (queries ex_d1_2) = [1]"
proof -
  have h1: "server_reachable ex_server1 \<and> hd ex_server1 \<in> set ex_server1"
    using ex_server_reachable(1) by (simp add: ex_server1_facts)
  have h2: "d1_reachable ex_d1_1 \<and> hd (queries ex_d1_1) \<in> set (queries ex_d1_1)"
    using ex_d1_reachable(1) by (simp add: ex_d1_1_facts)
  have k1: "length ex_bytes = 12 \<and>
      status (snd (server_share_query ex_server1 ''alice'' ''q1'' ex_bytes)) = 200"
  proof
    show "length ex_bytes = 12" by (simp add: ex_bytes_def)
    show "status (snd (server_share_query ex_server1 ''alice'' ''q1'' ex_bytes)) = 200"
      by (simp add: ex_server_share status_def)
  qed
  have k2: "is_uuid ex_uuid1 \<and> is_uuid ex_uuid2 \<and>
      status (snd (d1_share_query ex_d1_1 1 1 ex_uuid1 ex_uuid2)) = 200"
    by (simp only: ex_d1_share ex_uuids status_def) simp
  note S = mp[OF share_idempotent[where db = ex_server1 and q = "hd ex_server1"
          and bytes = ex_bytes and bytes' = "rev ex_bytes", THEN conjunct1] h1,
          unfolded ex_server1_facts(2,3)]
  note D = mp[OF share_idempotent[where d = ex_d1_1 and r = "hd (queries ex_d1_1)"
          and u = ex_uuid1 and v = ex_uuid2 and u' = ex_uuid2 and v' = ex_uuid1,
          THEN conjunct2] h2, unfolded ex_d1_1_facts(2,3)]
  from S k1 have "server_share_query (fst (server_share_query ex_server1 ''alice'' ''q1'' ex_bytes))
      ''alice'' ''q1'' (rev ex_bytes) = server_share_query ex_server1 ''alice'' ''q1'' ex_bytes"
    by blast
  then have s: "server_share_query ex_server2 ''alice'' ''q1'' (rev ex_bytes) =
     (ex_server2, (200, JObj [(''shareId'', JStr ''0102030405060708090a0bff'')]))"
    by (simp add: ex_server_share)
  from D k2 have "d1_share_query (fst (d1_share_query ex_d1_1 1 1 ex_uuid1 ex_uuid2))
      1 1 ex_uuid2 ex_uuid1 = d1_share_query ex_d1_1 1 1 ex_uuid1 ex_uuid2"
    by blast
  then have d: "d1_share_query ex_d1_2 1 1 ex_uuid2 ex_uuid1 =
     (ex_d1_2, (200, JObj [(''shareId'', JStr ''123e456777fe'')]))"
    by (simp only: ex_d1_share fst_conv)
  have v: "map doc_isPublic ex_server1 = [False] \<and> map doc_isPublic ex_server2 = [True] \<and>
      map row_is_public (queries ex_d1_1) = [0] \<and> map row_is_public (queries ex_d1_2) = [1]"
    by (simp add: ex_server1_value ex_server2_value ex_d1_1_value ex_d1_2_value)
  from h1 h2 k1 k2 s d v ex_server_share ex_d1_share show ?thesis by blast
qed

subsection \<open>What the read handlers send\<close>

text \<open>
  C4. When the public lookup finds a query (status 200), the body is an object with
  exactly the members \<open>title\<close>, \<open>text\<close>, \<open>tags\<close> and \<open>createdAt\<close>; the owner, the id,
  the public flag and the share token are not in it under any of the names the two
  variants use for them. Otherwise the answer is 404.
\<close>

theorem public_view_fields:
  "(status (server_get_public_query db t) = 200 \<or> status (server_get_public_query db t) = 404) \<and>
   (status (server_get_public_query db t) = 200 \<longrightarrow>
      keys (body (server_get_public_query db t)) = [''title'', ''text'', ''tags'', ''createdAt''] \<and>
      (\<forall>k \<in> set [''ownerId'', ''user'', ''id'', ''_id'', ''isPublic'', ''shareToken'', ''shareId''].
          member (body (server_get_public_query db t)) k = None)) \<and>
   (status (d1_get_public_query d t) = 200 \<or> status (d1_get_public_query d t) = 404) \<and>
   (status (d1_get_public_query d t) = 200 \<longrightarrow>
      keys (body (d1_get_public_query d t)) = [''title'', ''text'', ''tags'', ''createdAt''] \<and>
      (\<forall>k \<in> set [''ownerId'', ''user_id'', ''id'', ''_id'', ''is_public'', ''shareToken'', ''share_id''].
          member (body (d1_get_public_query d t)) k = None))"
  by (simp add: server_get_public_query_def d1_get_public_query_def status_def body_def message_def
        split: option.splits)

theorem public_view_fields_witness:
  "status (server_get_public_query ex_server2 ''0102030405060708090a0bff'') = 200 \<and>
   keys (body (server_get_public_query ex_server2 ''0102030405060708090a0bff'')) =
     [''title'', ''text'', ''tags'', ''createdAt''] \<and>
   member (body (server_get_public_query ex_server2 ''0102030405060708090a0bff'')) ''user'' = None \<and>
   status (server_get_public_query ex_server1 ''0102030405060708090a0bff'') = 404 \<and>
   status (d1_get_public_query ex_d1_2 ''123e456777fe'') = 200 \<and>
   keys (body (d1_get_public_query ex_d1_2 ''123e456777fe'')) =
     [''title'', ''text'', ''tags'', ''createdAt''] \<and>
   member (body (d1_get_public_query ex_d1_2 ''123e456777fe'')) ''user_id'' = None"
proof -
  have s: "status (server_get_public_query ex_server2 ''0102030405060708090a0bff'') = 200"
    by (simp add: ex_server2_value server_get_public_query_def status_def)
  have n: "status (server_get_public_query ex_server1 ''0102030405060708090a0bff'') = 404"
    by (simp add: ex_server1_value server_get_public_query_def status_def)
  have d: "status (d1_get_public_query ex_d1_2 ''123e456777fe'') = 200"
    by (simp add: ex_d1_2_value d1_get_public_query_def status_def)
  from public_view_fields[of ex_server2 "''0102030405060708090a0bff''" ex_d1_2] s
  have 1: "keys (body (server_get_public_query ex_server2 ''0102030405060708090a0bff'')) =
     [''title'', ''text'', ''tags'', ''createdAt''] \<and>
     member (body (server_get_public_query ex_server2 ''0102030405060708090a0bff'')) ''user'' = None"
    by simp
  from public_view_fields[of db "''123e456777fe''" ex_d1_2] d
  have 2: "keys (body (d1_get_public_query ex_d1_2 ''123e456777fe'')) =
     [''title'', ''text'', ''tags'', ''createdAt''] \<and>
     member (body (d1_get_public_query ex_d1_2 ''123e456777fe'')) ''user_id'' = None"
    by simp
  from s n d 1 2 show ?thesis by blast
qed

text \<open>
  C10. Every element of the list a user gets and every public view carries \<open>tags\<close> as
  an array: for a query without tags it is the empty array, never null and never
  left out.
\<close>

theorem tags_always_array:
  "(\<forall>j \<in> set (elements (body (server_get_queries db uid))). is_array (member j ''tags'')) \<and>
   (\<forall>q \<in> set db. doc_user q = uid \<and> doc_tags q = [] \<longrightarrow>
      toJSON q \<in> set (elements (body (server_get_queries db uid))) \<and>
      member (toJSON q) ''tags'' = Some (JArr [])) \<and>
   (status (server_get_public_query db t) = 200 \<longrightarrow>
      is_array (member (body (server_get_public_query db t)) ''tags'')) \<and>
   (\<forall>j \<in> set (elements (body (d1_get_queries d n))). is_array (member j ''tags'')) \<and>
   (\<forall>q \<in> set (queries d). row_user_id q = n \<and> tags_of d (row_id q) = [] \<longrightarrow>
      formatted d q \<in> set (elements (body (d1_get_queries d n))) \<and>
      member (formatted d q) ''tags'' = Some (JArr [])) \<and>
   (status (d1_get_public_query d t) = 200 \<longrightarrow>
      is_array (member (body (d1_get_public_query d t)) ''tags''))"
proof (intro conjI)
  show "\<forall>j \<in> set (elements (body (server_get_queries db uid))). is_array (member j ''tags'')"
    by (auto simp: server_get_queries_def body_def toJSON_def)
  show "\<forall>q \<in> set db. doc_user q = uid \<and> doc_tags q = [] \<longrightarrow>
      toJSON q \<in> set (elements (body (server_get_queries db uid))) \<and>
      member (toJSON q) ''tags'' = Some (JArr [])"
    by (auto simp: server_get_queries_def body_def toJSON_def)
  show "status (server_get_public_query db t) = 200 \<longrightarrow>
      is_array (member (body (server_get_public_query db t)) ''tags'')"
    by (simp add: server_get_public_query_def body_def status_def message_def split: option.splits)
  show "\<forall>j \<in> set (elements (body (d1_get_queries d n))). is_array (member j ''tags'')"
    by (auto simp: d1_get_queries_def body_def formatted_def tags_array_def)
  show "\<forall>q \<in> set (queries d). row_user_id q = n \<and> tags_of d (row_id q) = [] \<longrightarrow>
      formatted d q \<in> set (elements (body (d1_get_queries d n))) \<and>
      member (formatted d q) ''tags'' = Some (JArr [])"
    by (auto simp: d1_get_queries_def body_def formatted_def tags_array_def group_concat_def truthy_def)
  show "status (d1_get_public_query d t) = 200 \<longrightarrow>
      is_array (member (body (d1_get_public_query d t)) ''tags'')"
    by (simp add: d1_get_public_query_def body_def status_def message_def tags_array_def
          split: option.splits)
qed

lemma ex_server3_tags:
  "map (\<lambda>j. member j ''tags'') (elements (body (server_get_queries ex_server3 ''alice''))) =
     [Some (JArr []), Some (JArr [JStr ''sql'', JStr ''sql'', JStr ''perf''])]"
  by code_simp

lemma ex_d1_3_tags:
  "map (\<lambda>j. member j ''tags'') (elements (body (d1_get_queries ex_d1_3 1))) =
     [Some (JArr []), Some (JArr [JStr ''db'', JStr ''perf''])]"
  by code_simp

lemma ex_public_tags:
  "server_get_public_query ex_server3 ''0102030405060708090a0bff'' =
     (200, JObj [(''title'', JStr ''Top customers''), (''text'', JStr ''SELECT 1''),
                 (''tags'', JArr [JStr ''sql'', JStr ''sql'', JStr ''perf'']),
                 (''createdAt'', JDate 1000)])"
  "d1_get_public_query ex_d1_3 ''123e456777fe'' =
     (200, JObj [(''title'', JStr ''Slow queries''), (''text'', JStr ''SELECT 2''),
                 (''tags'', JArr [JStr ''db'', JStr ''perf'']),
                 (''createdAt'', JDate 1000)])"
  by code_simp+

theorem tags_always_array_witness:
  "list_all (\<lambda>j. is_array (member j ''tags'')) (elements (body (server_get_queries ex_server3 ''alice''))) \<and>
   map (\<lambda>j. member j ''tags'') (elements (body (server_get_queries ex_server3 ''alice''))) =
     [Some (JArr []), Some (JArr [JStr ''sql'', JStr ''sql'', JStr ''perf''])] \<and>
   status (server_get_public_query ex_server3 ''0102030405060708090a0bff'') = 200 \<and>
   is_array (member (body (server_get_public_query ex_server3 ''0102030405060708090a0bff'')) ''tags'') \<and>
   list_all (\<lambda>j. is_array (member j ''tags'')) (elements (body (d1_get_queries ex_d1_3 1))) \<and>
   map (\<lambda>j. member j ''tags'') (elements (body (d1_get_queries ex_d1_3 1))) =
     [Some (JArr []), Some (JArr [JStr ''db'', JStr ''perf''])] \<and>
   status (d1_get_public_query ex_d1_3 ''123e456777fe'') = 200 \<and>
   is_array (member (body (d1_get_public_query ex_d1_3 ''123e456777fe'')) ''tags'')"
proof -
  note T = tags_always_array[where db = ex_server3 and uid = "''alice''"
      and t = "''0102030405060708090a0bff''" and d = ex_d1_3 and n = 1]
  note U = tags_always_array[where db = ex_server3 and uid = "''alice''"
      and d = ex_d1_3 and n = 1 and t = "''123e456777fe''"]
  have s: "status (server_get_public_query ex_server3 ''0102030405060708090a0bff'') = 200"
    by (simp only: ex_public_tags status_def fst_conv)
  have d: "status (d1_get_public_query ex_d1_3 ''123e456777fe'') = 200"
    by (simp only: ex_public_tags status_def fst_conv)
  from T[THEN conjunct1] have 1: "list_all (\<lambda>j. is_array (member j ''tags''))
      (elements (body (server_get_queries ex_server3 ''alice'')))"
    by (simp only: list_all_iff)
  from T s have 2: "is_array (member (body (server_get_public_query ex_server3
      ''0102030405060708090a0bff'')) ''tags'')" by blast
  from U[THEN conjunct2, THEN conjunct2, THEN conjunct2, THEN conjunct1] have 3: "list_all (\<lambda>j. is_array (member j ''tags''))
      (elements (body (d1_get_queries ex_d1_3 1)))"
    by (simp only: list_all_iff)
  from U d have 4: "is_array (member (body (d1_get_public_query ex_d1_3 ''123e456777fe'')) ''tags'')"
    by blast
  from 1 2 3 4 s d ex_server3_tags ex_d1_3_tags show ?thesis by blast
qed

subsection \<open>Tags\<close>

lemma normalize_tags_set:
  "set (normalize_tags ts) = (\<lambda>tag. toLowerCase (trim tag)) ` set ts - {[]}"
  by (auto simp: normalize_tags_def)

lemma normalize_tags_elem:
  "x \<in> set (normalize_tags ts) \<Longrightarrow> x \<noteq> [] \<and> trim x = x \<and> toLowerCase x = x"
  by (auto simp: normalize_tags_def trim_normalized toLowerCase_idem)

lemma tags_of_append:
  "\<forall>r \<in> set T. fst r \<noteq> i \<Longrightarrow>
     map snd (filter (\<lambda>r. fst r = i) (T @ map (Pair i) ts)) = ts"
  by (induction ts rule: rev_induct) (auto simp: filter_empty_conv)

lemma d1_post_distinct:
  assumes wf: "d1_wf db" and dis: "distinct (processedTags (b_tags b))"
  shows "status (snd (d1_post_queries db uid b now)) = 201"
    and "tags_of (fst (d1_post_queries db uid b now)) (last_row_id db) = processedTags (b_tags b)"
proof -
  have none: "\<forall>r \<in> set (query_tags db). fst r \<noteq> last_row_id db"
  proof
    fix r assume "r \<in> set (query_tags db)"
    with wf obtain q where "q \<in> set (queries db)" "fst r = row_id q" by (auto simp: d1_wf_def)
    with last_row_id_fresh[of q db] show "fst r \<noteq> last_row_id db" by simp
  qed
  note w = write_tags_distinct[OF dis none]
  show "status (snd (d1_post_queries db uid b now)) = 201"
    by (simp add: d1_post_queries_def Let_def w status_def)
  show "tags_of (fst (d1_post_queries db uid b now)) (last_row_id db) = processedTags (b_tags b)"
    unfolding tags_of_def d1_post_tags w fst_conv by (rule tags_of_append[OF none])
qed

lemma d1_put_distinct:
  assumes q: "q \<in> set (queries db)" and dis: "distinct (processedTags (b_tags b))"
  shows "status (snd (d1_put_query db (row_user_id q) (row_id q) b)) = 200"
    and "tags_of (fst (d1_put_query db (row_user_id q) (row_id q) b)) (row_id q) =
           processedTags (b_tags b)"
proof -
  have ne: "filter (\<lambda>x. row_id x = row_id q \<and> row_user_id x = row_user_id q) (queries db) \<noteq> []"
    using q by (auto simp: filter_empty_conv)
  have none: "\<forall>r \<in> set (filter (\<lambda>r. fst r \<noteq> row_id q) (query_tags db)). fst r \<noteq> row_id q"
    by simp
  note w = write_tags_distinct[OF dis none]
  show "status (snd (d1_put_query db (row_user_id q) (row_id q) b)) = 200"
    using ne by (simp add: d1_put_query_def Let_def w status_def)
  show "tags_of (fst (d1_put_query db (row_user_id q) (row_id q) b)) (row_id q) =
           processedTags (b_tags b)"
    unfolding tags_of_def d1_put_tags if_not_P[OF ne] w fst_conv by (rule tags_of_append[OF none])
qed

lemma server_post_tags:
  "status (snd (server_post_queries db uid b new_id now)) = 201 \<Longrightarrow>
     length (fst (server_post_queries db uid b new_id now)) = Suc (length db) \<and>
     doc_tags (last (fst (server_post_queries db uid b new_id now))) = processedTags (b_tags b)"
  using server_post_queries_cases[of db uid b new_id now]
  by (cases "server_post_queries db uid b new_id now") (auto simp: status_def)

lemma server_put_tags:
  assumes wf: "server_wf db"
    and ok: "status (snd (server_put_query db uid i b)) = 200"
  shows "\<exists>q' \<in> set (fst (server_put_query db uid i b)). doc_id q' = i"
    and "\<forall>q' \<in> set (fst (server_put_query db uid i b)).
           doc_id q' = i \<longrightarrow> doc_tags q' = processedTags (b_tags b)"
proof -
  obtain db' r where e: "server_put_query db uid i b = (db', r)"
    by (cases "server_put_query db uid i b")
  let ?f = "\<lambda>d. d\<lparr>doc_title := b_title b, doc_text := b_text b,
                   doc_tags := processedTags (b_tags b)\<rparr>"
  from server_put_query_cases[OF e] ok e obtain xs d ys where
    s: "db = xs @ d # ys" "doc_id d = i" "db' = xs @ ?f d # ys"
    by (auto simp: status_def)
  from wf s(1) have "distinct (map doc_id (xs @ d # ys))" by (simp add: server_wf_def)
  then have "doc_id d \<notin> doc_id ` set xs" "doc_id d \<notin> doc_id ` set ys" by auto
  then have dis: "\<forall>x \<in> set xs \<union> set ys. doc_id x \<noteq> i"
    unfolding s(2) by blast
  from e s(3) have f: "fst (server_put_query db uid i b) = xs @ ?f d # ys" by simp
  show "\<exists>q' \<in> set (fst (server_put_query db uid i b)). doc_id q' = i"
    unfolding f using s(2) by (intro bexI[of _ "?f d"]) simp_all
  show "\<forall>q' \<in> set (fst (server_put_query db uid i b)).
           doc_id q' = i \<longrightarrow> doc_tags q' = processedTags (b_tags b)"
    unfolding f using dis by auto
qed

lemma ex_tags_value:
  "processedTags (Some ['' SQL '', ''sql'', '''', ''Perf'']) = [''sql'', ''sql'', ''perf'']"
  by code_simp

text \<open>
  C5, as the handlers have it, for tags of ASCII characters. The tags a successful create
  or update stores are the input list with every entry trimmed and lower-cased and the
  empty entries dropped, in the order of the request (no tags at all when the member is
  missing). Duplicates are kept: \<open>[" SQL ", "sql", "", "Perf"]\<close> is stored as
  \<open>["sql", "sql", "perf"]\<close>, and only the set of the stored tags is \<open>{"sql", "perf"}\<close>.
  In \<^verbatim>\<open>server.js\<close> this is the \<open>tags\<close> array of the document; in the D1 worker it is
  the tag rows of the query, for an input whose normalised tags are pairwise different.
\<close>

theorem tags_normalized:
  "processedTags None = [] \<and>
   (list_all ascii ts \<longrightarrow>
      processedTags (Some ts) = filter (\<lambda>tag. tag \<noteq> []) (map (\<lambda>tag. toLowerCase (trim tag)) ts) \<and>
      set (processedTags (Some ts)) = (\<lambda>tag. toLowerCase (trim tag)) ` set ts - {[]} \<and>
      (\<forall>x \<in> set (processedTags (Some ts)). x \<noteq> [] \<and> trim x = x \<and> toLowerCase x = x)) \<and>
   processedTags (Some ['' SQL '', ''sql'', '''', ''Perf'']) = [''sql'', ''sql'', ''perf''] \<and>
   set (processedTags (Some ['' SQL '', ''sql'', '''', ''Perf''])) = {''sql'', ''perf''} \<and>
   (ascii_tags (b_tags b) \<and> status (snd (server_post_queries db uid b new_id now)) = 201 \<longrightarrow>
      length (fst (server_post_queries db uid b new_id now)) = Suc (length db) \<and>
      doc_tags (last (fst (server_post_queries db uid b new_id now))) = processedTags (b_tags b)) \<and>
   (ascii_tags (b_tags b) \<and> server_reachable db \<and>
    status (snd (server_put_query db uid i b)) = 200 \<longrightarrow>
      (\<exists>q' \<in> set (fst (server_put_query db uid i b)). doc_id q' = i) \<and>
      (\<forall>q' \<in> set (fst (server_put_query db uid i b)).
          doc_id q' = i \<longrightarrow> doc_tags q' = processedTags (b_tags b))) \<and>
   (ascii_tags (b_tags b) \<and> d1_reachable d \<and> distinct (processedTags (b_tags b)) \<longrightarrow>
      status (snd (d1_post_queries d n b now)) = 201 \<and>
      tags_of (fst (d1_post_queries d n b now)) (last_row_id d) = processedTags (b_tags b)) \<and>
   (ascii_tags (b_tags b) \<and> r \<in> set (queries d) \<and> distinct (processedTags (b_tags b)) \<longrightarrow>
      status (snd (d1_put_query d (row_user_id r) (row_id r) b)) = 200 \<and>
      tags_of (fst (d1_put_query d (row_user_id r) (row_id r) b)) (row_id r) =
        processedTags (b_tags b))"
proof (intro conjI impI)
  show "processedTags None = []" by (simp add: processedTags_def)
  show "processedTags (Some ts) =
      filter (\<lambda>tag. tag \<noteq> []) (map (\<lambda>tag. toLowerCase (trim tag)) ts)"
    by (simp add: processedTags_def normalize_tags_def)
  show "set (processedTags (Some ts)) = (\<lambda>tag. toLowerCase (trim tag)) ` set ts - {[]}"
    by (simp add: processedTags_def normalize_tags_set)
  show "\<forall>x \<in> set (processedTags (Some ts)). x \<noteq> [] \<and> trim x = x \<and> toLowerCase x = x"
    using normalize_tags_elem[of _ ts] by (simp add: processedTags_def)
  show "processedTags (Some ['' SQL '', ''sql'', '''', ''Perf'']) = [''sql'', ''sql'', ''perf'']"
    by (rule ex_tags_value)
  show "set (processedTags (Some ['' SQL '', ''sql'', '''', ''Perf''])) = {''sql'', ''perf''}"
    by (simp only: ex_tags_value) auto
next
  assume "ascii_tags (b_tags b) \<and> status (snd (server_post_queries db uid b new_id now)) = 201"
  then have "status (snd (server_post_queries db uid b new_id now)) = 201" by simp
  from server_post_tags[OF this]
  show "length (fst (server_post_queries db uid b new_id now)) = Suc (length db)"
    and "doc_tags (last (fst (server_post_queries db uid b new_id now))) = processedTags (b_tags b)"
    by simp_all
next
  assume "ascii_tags (b_tags b) \<and> server_reachable db \<and>
    status (snd (server_put_query db uid i b)) = 200"
  then have wf: "server_wf db" and ok: "status (snd (server_put_query db uid i b)) = 200"
    by (simp_all add: server_wf_reachable)
  from server_put_tags[OF wf ok]
  show "\<exists>q' \<in> set (fst (server_put_query db uid i b)). doc_id q' = i"
    and "\<forall>q' \<in> set (fst (server_put_query db uid i b)).
          doc_id q' = i \<longrightarrow> doc_tags q' = processedTags (b_tags b)" by simp_all
next
  assume "ascii_tags (b_tags b) \<and> d1_reachable d \<and> distinct (processedTags (b_tags b))"
  then have wf: "d1_wf d" and dis: "distinct (processedTags (b_tags b))"
    by (simp_all add: d1_wf_reachable)
  from d1_post_distinct[OF wf dis]
  show "status (snd (d1_post_queries d n b now)) = 201"
    and "tags_of (fst (d1_post_queries d n b now)) (last_row_id d) = processedTags (b_tags b)"
    by simp_all
next
  assume "ascii_tags (b_tags b) \<and> r \<in> set (queries d) \<and> distinct (processedTags (b_tags b))"
  then have q: "r \<in> set (queries d)" and dis: "distinct (processedTags (b_tags b))" by simp_all
  from d1_put_distinct[OF q dis]
  show "status (snd (d1_put_query d (row_user_id r) (row_id r) b)) = 200"
    and "tags_of (fst (d1_put_query d (row_user_id r) (row_id r) b)) (row_id r) =
        processedTags (b_tags b)" by simp_all
qed

lemma ex_put_value:
  "server_put_query ex_server2 ''alice'' ''q1'' ex_body2 =
     ([\<lparr>doc_id = ''q1'', doc_title = ''Slow queries'', doc_text = ''SELECT 2'',
         doc_tags = [''perf'', ''db''], doc_user = ''alice'',
         doc_isPublic = True, doc_shareId = Some ''0102030405060708090a0bff'',
         doc_createdAt = 1000\<rparr>],
      (200, JObj [(''_id'', JStr ''q1''), (''title'', JStr ''Slow queries''),
                  (''text'', JStr ''SELECT 2''), (''tags'', JArr [JStr ''perf'', JStr ''db'']),
                  (''user'', JStr ''alice''), (''isPublic'', JBool True),
                  (''shareId'', JStr ''0102030405060708090a0bff''),
                  (''createdAt'', JDate 1000), (''__v'', JNum 0)]))"
  by code_simp

lemma ex_post_status: "status (snd (server_post_queries [] ''alice'' ex_body ''q1'' 1000)) = 201"
  by code_simp

lemma ex_processed:
  "processedTags (b_tags ex_body) = [''sql'', ''sql'', ''perf'']"
  "processedTags (b_tags ex_body2) = [''perf'', ''db'']"
  "processedTags (b_tags ex_body3) = []"
  by code_simp+

lemma ex_ascii:
  "ascii_tags (b_tags ex_body)" "ascii_tags (b_tags ex_body2)" "ascii_tags (b_tags ex_body3)"
  "list_all ascii ['' SQL '', ''sql'', '''', ''Perf'']"
  by code_simp+

theorem tags_normalized_witness:
  "list_all ascii ['' SQL '', ''sql'', '''', ''Perf''] \<and>
   set (processedTags (Some ['' SQL '', ''sql'', '''', ''Perf''])) =
     (\<lambda>tag. toLowerCase (trim tag)) ` set ['' SQL '', ''sql'', '''', ''Perf''] - {[]} \<and>
   ascii_tags (b_tags ex_body) \<and>
   status (snd (server_post_queries [] ''alice'' ex_body ''q1'' 1000)) = 201 \<and>
   doc_tags (last ex_server1) = [''sql'', ''sql'', ''perf''] \<and>
   ascii_tags (b_tags ex_body2) \<and> server_reachable ex_server2 \<and>
   status (snd (server_put_query ex_server2 ''alice'' ''q1'' ex_body2)) = 200 \<and>
   doc_tags (hd (fst (server_put_query ex_server2 ''alice'' ''q1'' ex_body2))) = [''perf'', ''db''] \<and>
   d1_reachable d1_empty \<and> distinct (processedTags (b_tags ex_body2)) \<and>
   status (snd (d1_post_queries d1_empty 1 ex_body2 1000)) = 201 \<and>
   tags_of ex_d1_1 (last_row_id d1_empty) = [''perf'', ''db''] \<and>
   ascii_tags (b_tags ex_body3) \<and>
   hd (queries ex_d1_1) \<in> set (queries ex_d1_1) \<and> distinct (processedTags (b_tags ex_body3)) \<and>
   tags_of (fst (d1_put_query ex_d1_1 1 1 ex_body3)) 1 = []"
proof -
  note E = tags_normalized[where ts = "['' SQL '', ''sql'', '''', ''Perf'']",
      THEN conjunct2, THEN conjunct1, THEN mp, OF ex_ascii(4), THEN conjunct2, THEN conjunct1]
  note A = tags_normalized[where db = "[]" and uid = "''alice''" and b = ex_body
      and new_id = "''q1''" and now = 1000,
      THEN conjunct2, THEN conjunct2, THEN conjunct2, THEN conjunct2,
      THEN conjunct1, THEN mp, OF conjI[OF ex_ascii(1) ex_post_status], THEN conjunct2,
      folded ex_server1_def, unfolded ex_processed]
  have ok: "status (snd (server_put_query ex_server2 ''alice'' ''q1'' ex_body2)) = 200"
    by (simp only: ex_put_value status_def snd_conv fst_conv)
  note B = tags_normalized[where db = ex_server2 and uid = "''alice''" and b = ex_body2
      and i = "''q1''",
      THEN conjunct2, THEN conjunct2, THEN conjunct2, THEN conjunct2, THEN conjunct2,
      THEN conjunct1, THEN mp,
      OF conjI[OF ex_ascii(2) conjI[OF ex_server_reachable(2) ok]], THEN conjunct2,
      unfolded ex_processed]
  have dis2: "distinct (processedTags (b_tags ex_body2))" by (simp add: ex_processed)
  have dis3: "distinct (processedTags (b_tags ex_body3))" by (simp add: ex_processed)
  note C = tags_normalized[where d = d1_empty and n = 1 and b = ex_body2 and now = 1000,
      THEN conjunct2, THEN conjunct2, THEN conjunct2, THEN conjunct2, THEN conjunct2,
      THEN conjunct2, THEN conjunct1, THEN mp,
      OF conjI[OF ex_ascii(2) conjI[OF d1_init dis2]], folded ex_d1_1_def, unfolded ex_processed]
  note D = tags_normalized[where d = ex_d1_1 and r = "hd (queries ex_d1_1)" and b = ex_body3,
      THEN conjunct2, THEN conjunct2, THEN conjunct2, THEN conjunct2, THEN conjunct2,
      THEN conjunct2, THEN conjunct2, THEN mp,
      OF conjI[OF ex_ascii(3) conjI[OF ex_d1_1_facts(1) dis3]], THEN conjunct2,
      unfolded ex_processed ex_d1_1_facts(2,3)]
  have "hd (fst (server_put_query ex_server2 ''alice'' ''q1'' ex_body2))
          \<in> set (fst (server_put_query ex_server2 ''alice'' ''q1'' ex_body2))"
    and "doc_id (hd (fst (server_put_query ex_server2 ''alice'' ''q1'' ex_body2))) = ''q1''"
    by (simp_all only: ex_put_value fst_conv) simp_all
  with B have B': "doc_tags (hd (fst (server_put_query ex_server2 ''alice'' ''q1'' ex_body2))) =
      [''perf'', ''db'']" by blast
  from A B' C D E ex_post_status ok ex_server_reachable(2) d1_init dis2 dis3 ex_d1_1_facts(1)
    ex_ascii
  show ?thesis by blast
qed

text \<open>C5 as stated fails: the tags of the spec's own example are stored with the
  duplicate in place.\<close>

theorem tags_normalized_counterexample:
  "b_tags ex_body = Some ['' SQL '', ''sql'', '''', ''Perf''] \<and>
   ex_server1 = fst (server_post_queries [] ''alice'' ex_body ''q1'' 1000) \<and>
   status (snd (server_post_queries [] ''alice'' ex_body ''q1'' 1000)) = 201 \<and>
   map doc_tags ex_server1 = [[''sql'', ''sql'', ''perf'']] \<and>
   \<not> distinct (doc_tags (hd ex_server1))"
proof (intro conjI)
  show "b_tags ex_body = Some ['' SQL '', ''sql'', '''', ''Perf'']" by (simp add: ex_body_def)
  show "ex_server1 = fst (server_post_queries [] ''alice'' ex_body ''q1'' 1000)"
    by (rule ex_server1_def)
  show "status (snd (server_post_queries [] ''alice'' ex_body ''q1'' 1000)) = 201"
    by (rule ex_post_status)
  show "map doc_tags ex_server1 = [[''sql'', ''sql'', ''perf'']]" by (simp add: ex_server1_value)
  show "\<not> distinct (doc_tags (hd ex_server1))" by (simp add: ex_server1_value)
qed

subsection \<open>Validation\<close>

text \<open>
  C6, as \<^verbatim>\<open>server.js\<close> has it. Create answers 400 exactly when the title or the text is
  empty (or missing), with no trimming; then nothing is stored.
\<close>

theorem create_validation:
  "(status (snd (server_post_queries db uid b new_id now)) = 400 \<longleftrightarrow>
      b_title b = [] \<or> b_text b = []) \<and>
   (b_title b = [] \<or> b_text b = [] \<longrightarrow>
      server_post_queries db uid b new_id now =
        (db, (400, message ''Title and text are required.'')))"
  by (simp add: server_post_queries_def Let_def status_def split: option.splits)

theorem create_validation_witness:
  "b_text (ex_body\<lparr>b_text := []\<rparr>) = [] \<and>
   server_post_queries ex_server2 ''alice'' (ex_body\<lparr>b_text := []\<rparr>) ''q2'' 2000 =
     (ex_server2, (400, message ''Title and text are required.'')) \<and>
   status (snd (server_post_queries ex_server2 ''alice'' (ex_body\<lparr>b_text := []\<rparr>) ''q2'' 2000)) = 400 \<and>
   status (snd (server_post_queries ex_server2 ''alice'' ex_body ''q2'' 2000)) \<noteq> 400"
  using create_validation[of ex_server2 "''alice''" "ex_body\<lparr>b_text := []\<rparr>" "''q2''" 2000]
    create_validation[of ex_server2 "''alice''" ex_body "''q2''" 2000]
  by (simp add: ex_body_def status_def)

text \<open>C6 as stated fails: a title of blanks only is empty after trimming, and the query
  is created.\<close>

theorem create_validation_counterexample:
  "trim ''   '' = [] \<and>
   status (snd (server_post_queries [] ''alice'' (ex_body\<lparr>b_title := ''   ''\<rparr>) ''q1'' 1000)) = 201 \<and>
   map doc_title (fst (server_post_queries [] ''alice'' (ex_body\<lparr>b_title := ''   ''\<rparr>) ''q1'' 1000)) =
     [''   '']"
  by code_simp

subsection \<open>Update\<close>

lemma server_put_frame_all:
  "map doc_id (fst (server_put_query db uid i b)) = map doc_id db \<and>
   map doc_user (fst (server_put_query db uid i b)) = map doc_user db \<and>
   map doc_createdAt (fst (server_put_query db uid i b)) = map doc_createdAt db \<and>
   map doc_isPublic (fst (server_put_query db uid i b)) = map doc_isPublic db \<and>
   map doc_shareId (fst (server_put_query db uid i b)) = map doc_shareId db \<and>
   list_all2 (\<lambda>o' n. doc_id o' \<noteq> i \<longrightarrow> n = o') db (fst (server_put_query db uid i b))"
proof -
  obtain db' r where e: "server_put_query db uid i b = (db', r)"
    by (cases "server_put_query db uid i b")
  from server_put_query_cases[OF e] show ?thesis
  proof
    assume "db' = db \<and> (status r = 400 \<or> status r = 404)"
    with e show ?thesis by (simp add: list_all2_same)
  next
    assume "\<exists>xs d ys. db = xs @ d # ys \<and> doc_id d = i \<and> doc_user d = uid \<and>
          db' = xs @ d\<lparr>doc_title := b_title b, doc_text := b_text b,
                         doc_tags := processedTags (b_tags b)\<rparr> # ys \<and>
          r = (200, toJSON (d\<lparr>doc_title := b_title b, doc_text := b_text b,
                         doc_tags := processedTags (b_tags b)\<rparr>))"
    then obtain xs d ys where s: "db = xs @ d # ys" "doc_id d = i"
      "db' = xs @ d\<lparr>doc_title := b_title b, doc_text := b_text b,
                         doc_tags := processedTags (b_tags b)\<rparr> # ys" by blast
    have "list_all2 (\<lambda>o' n. doc_id o' \<noteq> i \<longrightarrow> n = o') (xs @ d # ys)
            (xs @ d\<lparr>doc_title := b_title b, doc_text := b_text b,
                         doc_tags := processedTags (b_tags b)\<rparr> # ys)"
      using s(2) by (simp add: list_all2_append list_all2_same)
    with s e show ?thesis by simp
  qed
qed

lemma d1_put_frame_all:
  "map row_id (queries (fst (d1_put_query d n k b))) = map row_id (queries d) \<and>
   map row_user_id (queries (fst (d1_put_query d n k b))) = map row_user_id (queries d) \<and>
   map row_created_at (queries (fst (d1_put_query d n k b))) = map row_created_at (queries d) \<and>
   map row_is_public (queries (fst (d1_put_query d n k b))) = map row_is_public (queries d) \<and>
   map row_share_id (queries (fst (d1_put_query d n k b))) = map row_share_id (queries d) \<and>
   list_all2 (\<lambda>o' n'. row_id o' \<noteq> k \<longrightarrow> n' = o') (queries d) (queries (fst (d1_put_query d n k b))) \<and>
   (\<forall>j. j \<noteq> k \<longrightarrow> tags_of (fst (d1_put_query d n k b)) j = tags_of d j)"
proof (intro conjI allI impI)
  show "list_all2 (\<lambda>o' n'. row_id o' \<noteq> k \<longrightarrow> n' = o') (queries d) (queries (fst (d1_put_query d n k b)))"
    by (simp add: d1_put_rows list_all2_same list_all2_map2)
next
  fix j assume j: "j \<noteq> k"
  have "filter (\<lambda>r. fst r = j) (filter (\<lambda>r. fst r \<noteq> k) (query_tags d)) =
        filter (\<lambda>r. fst r = j) (query_tags d)"
    using j by (auto intro: filter_cong)
  then show "tags_of (fst (d1_put_query d n k b)) j = tags_of d j"
    using j by (simp add: tags_of_def d1_put_tags write_tags_other)
qed (simp_all add: d1_put_rows comp_def cong: map_cong)

text \<open>
  C7. An update changes nothing but the title, the text and the tags of the query it
  addresses: every stored query keeps its id, owner, creation time, public flag and
  share token, and every query with another id stays as it is, whatever else the
  request body carries (the handlers never read \<open>b_rest\<close>). In the D1 worker the tag
  rows of the other queries stay as well. This holds for every call, so for the
  successful ones.
\<close>

theorem update_frame:
  "map doc_id (fst (server_put_query db uid i b)) = map doc_id db \<and>
   map doc_user (fst (server_put_query db uid i b)) = map doc_user db \<and>
   map doc_createdAt (fst (server_put_query db uid i b)) = map doc_createdAt db \<and>
   map doc_isPublic (fst (server_put_query db uid i b)) = map doc_isPublic db \<and>
   map doc_shareId (fst (server_put_query db uid i b)) = map doc_shareId db \<and>
   list_all2 (\<lambda>o' n. doc_id o' \<noteq> i \<longrightarrow> n = o') db (fst (server_put_query db uid i b)) \<and>
   map row_id (queries (fst (d1_put_query d n k b))) = map row_id (queries d) \<and>
   map row_user_id (queries (fst (d1_put_query d n k b))) = map row_user_id (queries d) \<and>
   map row_created_at (queries (fst (d1_put_query d n k b))) = map row_created_at (queries d) \<and>
   map row_is_public (queries (fst (d1_put_query d n k b))) = map row_is_public (queries d) \<and>
   map row_share_id (queries (fst (d1_put_query d n k b))) = map row_share_id (queries d) \<and>
   list_all2 (\<lambda>o' n'. row_id o' \<noteq> k \<longrightarrow> n' = o') (queries d) (queries (fst (d1_put_query d n k b))) \<and>
   (\<forall>j. j \<noteq> k \<longrightarrow> tags_of (fst (d1_put_query d n k b)) j = tags_of d j)"
  using server_put_frame_all[of db uid i b] d1_put_frame_all[of d n k b] by (intro conjI) blast+

lemma ex_put_ok: "status (snd (server_put_query ex_server3 ''alice'' ''q1'' ex_body)) = 200"
  by code_simp

lemma ex_d1_put_ok: "status (snd (d1_put_query ex_d1_3 1 1 ex_body2)) = 200"
  by code_simp

lemma ex_server3_fields:
  "map doc_id ex_server3 = [''q1'', ''q2'']" "map doc_user ex_server3 = [''alice'', ''alice'']"
  "map doc_createdAt ex_server3 = [1000, 2000]" "map doc_isPublic ex_server3 = [True, False]"
  "map doc_shareId ex_server3 = [Some ''0102030405060708090a0bff'', None]"
  "ex_server3 ! 1 = \<lparr>doc_id = ''q2'', doc_title = ''Untagged'', doc_text = ''SELECT 3'',
      doc_tags = [], doc_user = ''alice'', doc_isPublic = False, doc_shareId = None,
      doc_createdAt = 2000\<rparr>"
  "length ex_server3 = 2"
  by code_simp+

lemma ex_d1_3_fields:
  "map row_id (queries ex_d1_3) = [1, 2]" "map row_user_id (queries ex_d1_3) = [1, 1]"
  "map row_is_public (queries ex_d1_3) = [1, 0]"
  "map row_share_id (queries ex_d1_3) = [Some ''123e456777fe'', None]"
  "tags_of ex_d1_3 2 = []"
  by code_simp+

theorem update_frame_witness:
  "status (snd (server_put_query ex_server3 ''alice'' ''q1'' ex_body)) = 200 \<and>
   map fst (b_rest ex_body) = [''isPublic'', ''user'', ''shareId'', ''createdAt''] \<and>
   map doc_user (fst (server_put_query ex_server3 ''alice'' ''q1'' ex_body)) = [''alice'', ''alice''] \<and>
   map doc_createdAt (fst (server_put_query ex_server3 ''alice'' ''q1'' ex_body)) = [1000, 2000] \<and>
   map doc_isPublic (fst (server_put_query ex_server3 ''alice'' ''q1'' ex_body)) = [True, False] \<and>
   map doc_shareId (fst (server_put_query ex_server3 ''alice'' ''q1'' ex_body)) =
     [Some ''0102030405060708090a0bff'', None] \<and>
   fst (server_put_query ex_server3 ''alice'' ''q1'' ex_body) ! 1 = ex_server3 ! 1 \<and>
   status (snd (d1_put_query ex_d1_3 1 1 ex_body2)) = 200 \<and>
   map row_user_id (queries (fst (d1_put_query ex_d1_3 1 1 ex_body2))) = [1, 1] \<and>
   map row_is_public (queries (fst (d1_put_query ex_d1_3 1 1 ex_body2))) = [1, 0] \<and>
   map row_share_id (queries (fst (d1_put_query ex_d1_3 1 1 ex_body2))) =
     [Some ''123e456777fe'', None] \<and>
   tags_of (fst (d1_put_query ex_d1_3 1 1 ex_body2)) 2 = []"
proof -
  note U = update_frame[where db = ex_server3 and uid = "''alice''" and i = "''q1''"
      and b = ex_body and d = ex_d1_3 and n = 1 and k = 1]
  note V = update_frame[where db = ex_server3 and uid = "''alice''" and i = "''q1''"
      and b = ex_body2 and d = ex_d1_3 and n = 1 and k = 1]
  from U have l: "list_all2 (\<lambda>o' n. doc_id o' \<noteq> ''q1'' \<longrightarrow> n = o') ex_server3
      (fst (server_put_query ex_server3 ''alice'' ''q1'' ex_body))" by blast
  have "doc_id (ex_server3 ! 1) \<noteq> ''q1''" by (simp only: ex_server3_fields(6)) simp
  with l have u6: "fst (server_put_query ex_server3 ''alice'' ''q1'' ex_body) ! 1 = ex_server3 ! 1"
    by (auto simp: list_all2_conv_all_nth ex_server3_fields(7))
  from V have "tags_of (fst (d1_put_query ex_d1_3 1 1 ex_body2)) 2 = tags_of ex_d1_3 2"
    by simp
  then have v7: "tags_of (fst (d1_put_query ex_d1_3 1 1 ex_body2)) 2 = []"
    by (simp only: ex_d1_3_fields(5))
  have r: "map fst (b_rest ex_body) = [''isPublic'', ''user'', ''shareId'', ''createdAt'']"
    by (simp add: ex_body_def)
  from U[unfolded ex_server3_fields] V[unfolded ex_d1_3_fields] u6 v7 r ex_put_ok ex_d1_put_ok
  show ?thesis by blast
qed

subsection \<open>Login\<close>

text \<open>
  C8 does not hold of either variant. An unknown name and a wrong password get the same
  401 only as long as \<open>bcrypt.compare\<close> returns: called with a password that is not a
  string it throws, and it is called only when the name is stored. In \<^verbatim>\<open>server.js\<close> a
  password that is a non-zero number passes the check for missing fields and is
  answered 500 for a stored name and 401 for an unknown one; in the D1 worker a request
  without a password is answered the same two ways.
\<close>

theorem login_existence_leak:
  "map usr_username ex_users = [''alice''] \<and>
   server_login ex_compare ex_sign ex_users ''alice'' (Some (JNum 123)) =
     (500, message ''An error occurred during login.'') \<and>
   server_login ex_compare ex_sign ex_users ''bob'' (Some (JNum 123)) =
     (401, message ''Invalid credentials.'') \<and>
   map urow_username ex_user_rows = [''alice''] \<and>
   d1_login ex_compare ex_sign ex_user_rows ''alice'' None =
     (500, JStr ''Internal Server Error'') \<and>
   d1_login ex_compare ex_sign ex_user_rows ''bob'' None =
     (401, message ''Invalid credentials.'')"
  by code_simp

subsection \<open>Writes of more than one statement\<close>

text \<open>
  C9 does not hold for the D1 worker. An update whose tags repeat after normalisation
  (here \<open>x\<close> and \<open>X\<close>) rewrites the row, deletes the old tag rows, inserts the first
  tag and then fails on the primary key of \<open>query_tags\<close>: the answer is 500 and the
  store is left half-written. The same happens on create, with the example tags of
  the specification.
\<close>

theorem d1_partial_write:
  "ex_d1_1 = \<lparr>queries = [\<lparr>row_id = 1, row_user_id = 1, row_title = ''Slow queries'',
                           row_text = ''SELECT 2'', row_is_public = 0, row_share_id = None,
                           row_created_at = 1000\<rparr>],
              query_tags = [(1, ''perf''), (1, ''db'')], d1_seq = 1\<rparr> \<and>
   b_tags ex_body_dup = Some [''x'', ''X ''] \<and>
   d1_put_query ex_d1_1 1 1 ex_body_dup =
     (\<lparr>queries = [\<lparr>row_id = 1, row_user_id = 1, row_title = ''Renamed'',
                    row_text = ''SELECT 9'', row_is_public = 0, row_share_id = None,
                    row_created_at = 1000\<rparr>],
       query_tags = [(1, ''x'')], d1_seq = 1\<rparr>,
      (500, JStr ''Internal Server Error'')) \<and>
   fst (d1_put_query ex_d1_1 1 1 ex_body_dup) \<noteq> ex_d1_1 \<and>
   b_tags ex_body = Some ['' SQL '', ''sql'', '''', ''Perf''] \<and>
   d1_post_queries d1_empty 1 ex_body 1000 =
     (\<lparr>queries = [\<lparr>row_id = 1, row_user_id = 1, row_title = ''Top customers'',
                    row_text = ''SELECT 1'', row_is_public = 0, row_share_id = None,
                    row_created_at = 1000\<rparr>],
       query_tags = [(1, ''sql'')], d1_seq = 1\<rparr>,
      (500, JStr ''Internal Server Error'')) \<and>
   fst (d1_post_queries d1_empty 1 ex_body 1000) \<noteq> d1_empty"
proof (intro conjI)
  show p: "d1_put_query ex_d1_1 1 1 ex_body_dup =
     (\<lparr>queries = [\<lparr>row_id = 1, row_user_id = 1, row_title = ''Renamed'',
                    row_text = ''SELECT 9'', row_is_public = 0, row_share_id = None,
                    row_created_at = 1000\<rparr>],
       query_tags = [(1, ''x'')], d1_seq = 1\<rparr>,
      (500, JStr ''Internal Server Error''))"
    by code_simp
  show "fst (d1_put_query ex_d1_1 1 1 ex_body_dup) \<noteq> ex_d1_1"
    by (simp only: p fst_conv) (simp add: ex_d1_1_value)
  show c: "d1_post_queries d1_empty 1 ex_body 1000 =
     (\<lparr>queries = [\<lparr>row_id = 1, row_user_id = 1, row_title = ''Top customers'',
                    row_text = ''SELECT 1'', row_is_public = 0, row_share_id = None,
                    row_created_at = 1000\<rparr>],
       query_tags = [(1, ''sql'')], d1_seq = 1\<rparr>,
      (500, JStr ''Internal Server Error''))"
    by code_simp
  show "fst (d1_post_queries d1_empty 1 ex_body 1000) \<noteq> d1_empty"
    by (simp only: c fst_conv) (simp add: d1_empty_def)
qed (simp_all add: ex_d1_1_value ex_body_dup_def ex_body_def)

end
